theory Spec2Isabelle
  imports Main "HOL-Library.Char_ord" "HOL-Library.List_Lexorder"
begin

section \<open>Data model\<close>

text \<open>
  Timestamps are instants of one clock, counted as natural numbers.
\<close>

type_synonym time = nat

text \<open>
  \<^verbatim>\<open>models.Message\<close> (models/message.go). The \<^verbatim>\<open>Reactions\<close> slice is left out: no
  handler modelled here reads or writes it, and \<^verbatim>\<open>db.First\<close> without a preload leaves it empty.
\<close>

record Message =
  ID :: string
  Content :: string
  Sender :: string
  Timestamp :: time
  MessageType :: string
  IsTyping :: bool
  IsFavorite :: bool
  IsRegenerated :: bool
  OriginalMessageID :: string
  SessionID :: string

text \<open>
  \<^verbatim>\<open>models.Session\<close> (models/session.go, in the sources at the end of
  src/middleware/auth.go): the five columns of the struct. Its sixth field, the relation
  \<^verbatim>\<open>Messages []Message\<close> with foreign key \<^verbatim>\<open>SessionID\<close>, is not a column: the messages are the
  rows of the other table, and a preload of them is written out where a handler asks for it.
  The struct has no other relation. \<^verbatim>\<open>S_ID\<close> and \<^verbatim>\<open>S_IsFavorite\<close> stand for \<^verbatim>\<open>ID\<close> and
  \<^verbatim>\<open>IsFavorite\<close>, whose names the message record already uses.
\<close>

record Session =
  S_ID :: string
  Title :: string
  CreatedAt :: time
  UpdatedAt :: time
  S_IsFavorite :: bool

text \<open>
  The world a request runs in: the two tables, rows in insertion order, and the clock
  that \<^verbatim>\<open>time.Now()\<close> reads.
\<close>

record World =
  sessions :: "Session list"
  messages :: "Message list"
  clock :: time

text \<open>
  What a request takes from its environment. Every call site of the handler has a fixed
  number, counted from 0 in the order of the source text:
  \<^item> \<open>uuid_New env k\<close>: the result of the \<open>k\<close>-th \<^verbatim>\<open>uuid.New().String()\<close>;
  \<^item> \<open>tick env k\<close>: the time that has passed since the previous reading of the clock when
    the \<open>k\<close>-th \<^verbatim>\<open>time.Now()\<close> is evaluated (the clock is taken not to run backwards);
  \<^item> \<open>db_fails env k\<close>: whether the \<open>k\<close>-th database statement fails for a reason outside
    the tables (connection, driver);
  \<^item> the two methods of the interface \<^verbatim>\<open>services.AIService\<close>, returning \<open>Inl\<close> of the
    error text or \<open>Inr\<close> of the reply.
\<close>

record Env =
  uuid_New :: "nat \<Rightarrow> string"
  tick :: "nat \<Rightarrow> nat"
  db_fails :: "nat \<Rightarrow> bool"
  ai_SendMessage :: "string \<Rightarrow> string + string"
  ai_RegenerateMessage :: "string \<Rightarrow> string + string"

text \<open>\<^verbatim>\<open>MockAIService\<close> (services/ai_service.go): never fails.\<close>

definition Mock_SendMessage :: "string \<Rightarrow> string + string" where
  "Mock_SendMessage message = Inr (''Mock response to: '' @ message)"

definition Mock_RegenerateMessage :: "string \<Rightarrow> string + string" where
  "Mock_RegenerateMessage message = Inr (''Mock regenerated response to: '' @ message)"

subsection \<open>Requests and responses\<close>

record SendMessageRequest =
  send_Message :: string
  send_SessionID :: string

record RegenerateMessageRequest =
  regen_MessageID :: string
  regen_SessionID :: string

record UpdateSessionRequest =
  upd_Title :: string
  upd_IsFavorite :: "bool option"

text \<open>
  The JSON bodies the handlers write. \<open>InvalidRequest\<close> is
  \<^verbatim>\<open>ErrorResponse{Error: "Invalid request", Message: err.Error(), Code: 400}\<close>, the text of
  the binder's error left out. \<open>H_session s ms\<close> is \<^verbatim>\<open>gin.H{"session": session}\<close> with the
  preloaded messages \<open>ms\<close> (empty when nothing was preloaded).
\<close>

datatype Body =
    ErrorResponse string string nat
  | InvalidRequest
  | SendMessageResponse Message string
  | H_message Message
  | H_session Session "Message list"
  | H_session_message Session string
  | H_text string

datatype Response = JSON nat Body

fun status :: "Response \<Rightarrow> nat" where
  "status (JSON code body) = code"

section \<open>The clock and the database\<close>

definition time_Now :: "nat \<Rightarrow> World \<Rightarrow> time \<times> World" where
  "time_Now d w = (clock w + d, w\<lparr>clock := clock w + d\<rparr>)"

datatype db_error = ErrRecordNotFound | ErrStorage | ErrUnsupportedRelation

text \<open>\<^verbatim>\<open>db.First(&session, "id = ?", id)\<close>\<close>

definition First_session :: "bool \<Rightarrow> string \<Rightarrow> World \<Rightarrow> db_error + Session" where
  "First_session fails sid w =
     (if fails then Inl ErrStorage
      else case find (\<lambda>s. S_ID s = sid) (sessions w) of
             None \<Rightarrow> Inl ErrRecordNotFound
           | Some s \<Rightarrow> Inr s)"

text \<open>
  \<^verbatim>\<open>db.Preload("Mode").First(&session, "id = ?", id)\<close>: the query runs first, and for a row
  that is found the preload runs next. \<^verbatim>\<open>models.Session\<close> has no relation \<^verbatim>\<open>Mode\<close>, so that
  preload ends with gorm's \<^verbatim>\<open>ErrUnsupportedRelation\<close>: the statement never returns without
  an error.
\<close>

definition First_session_Preload_Mode :: "bool \<Rightarrow> string \<Rightarrow> World \<Rightarrow> db_error + Session" where
  "First_session_Preload_Mode fails sid w =
     (case First_session fails sid w of
        Inl e \<Rightarrow> Inl e
      | Inr s \<Rightarrow> Inl ErrUnsupportedRelation)"

text \<open>\<^verbatim>\<open>db.First(&message, "id = ?", id)\<close>\<close>

definition First_message :: "bool \<Rightarrow> string \<Rightarrow> World \<Rightarrow> db_error + Message" where
  "First_message fails mid w =
     (if fails then Inl ErrStorage
      else case find (\<lambda>m. ID m = mid) (messages w) of
             None \<Rightarrow> Inl ErrRecordNotFound
           | Some m \<Rightarrow> Inr m)"

text \<open>
  \<^verbatim>\<open>db.Create(&session)\<close>: the insert is refused when the primary key is taken
  (\<^verbatim>\<open>id VARCHAR(255) PRIMARY KEY\<close>).
\<close>

definition Create_session :: "bool \<Rightarrow> Session \<Rightarrow> World \<Rightarrow> db_error + World" where
  "Create_session fails s w =
     (if fails \<or> S_ID s \<in> set (map S_ID (sessions w)) then Inl ErrStorage
      else Inr (w\<lparr>sessions := sessions w @ [s]\<rparr>))"

text \<open>
  \<^verbatim>\<open>db.Create(&message)\<close>: the table \<^verbatim>\<open>messages\<close> has a primary key, the constraint
  \<^verbatim>\<open>CHECK (sender IN ('user', 'bot'))\<close> and the foreign key
  \<^verbatim>\<open>session_id REFERENCES sessions(id)\<close>.
\<close>

definition Create_message :: "bool \<Rightarrow> Message \<Rightarrow> World \<Rightarrow> db_error + World" where
  "Create_message fails m w =
     (if fails \<or> ID m \<in> set (map ID (messages w))
         \<or> \<not> (Sender m = ''user'' \<or> Sender m = ''bot'')
         \<or> SessionID m \<notin> set (map S_ID (sessions w))
      then Inl ErrStorage
      else Inr (w\<lparr>messages := messages w @ [m]\<rparr>))"

text \<open>
  \<^verbatim>\<open>db.Save(&value)\<close> writes every field of the row with the value's primary key, and
  inserts the value when no row has that key. (gorm stamps a field named \<^verbatim>\<open>UpdatedAt\<close> itself
  when it saves; every handler sets that field to \<^verbatim>\<open>time.Now()\<close> on the line before the
  save, and the model stores the handler's reading.)
\<close>

definition Save_session :: "bool \<Rightarrow> Session \<Rightarrow> World \<Rightarrow> db_error + World" where
  "Save_session fails s w =
     (if fails then Inl ErrStorage
      else if S_ID s \<in> set (map S_ID (sessions w))
      then Inr (w\<lparr>sessions := map (\<lambda>r. if S_ID r = S_ID s then s else r) (sessions w)\<rparr>)
      else Create_session False s w)"

definition Save_message :: "bool \<Rightarrow> Message \<Rightarrow> World \<Rightarrow> db_error + World" where
  "Save_message fails m w =
     (if fails then Inl ErrStorage
      else if ID m \<in> set (map ID (messages w))
      then Inr (w\<lparr>messages := map (\<lambda>r. if ID r = ID m then m else r) (messages w)\<rparr>)
      else Create_message False m w)"

text \<open>
  A statement whose \<^verbatim>\<open>.Error\<close> the handler never reads (\<^verbatim>\<open>db.Save(&session)\<close> on a line
  of its own): the world moves on with or without the write.
\<close>

definition discard_error :: "db_error + World \<Rightarrow> World \<Rightarrow> World" where
  "discard_error r w = (case r of Inl e \<Rightarrow> w | Inr w' \<Rightarrow> w')"

text \<open>\<^verbatim>\<open>db.Where("session_id = ?", id).Delete(&models.Message{})\<close>\<close>

definition Delete_messages_of :: "bool \<Rightarrow> string \<Rightarrow> World \<Rightarrow> db_error + World" where
  "Delete_messages_of fails sid w =
     (if fails then Inl ErrStorage
      else Inr (w\<lparr>messages := filter (\<lambda>m. SessionID m \<noteq> sid) (messages w)\<rparr>))"

text \<open>
  \<^verbatim>\<open>db.Delete(&session)\<close> and \<^verbatim>\<open>db.Where("id = ?", id).Delete(&models.Session{})\<close>: the row
  goes, and with it the messages that reference it (\<^verbatim>\<open>ON DELETE CASCADE\<close>). A delete that
  matches no row is not an error.
\<close>

definition Delete_session :: "bool \<Rightarrow> string \<Rightarrow> World \<Rightarrow> db_error + World" where
  "Delete_session fails sid w =
     (if fails then Inl ErrStorage
      else Inr (w\<lparr>sessions := filter (\<lambda>s. S_ID s \<noteq> sid) (sessions w),
                  messages := filter (\<lambda>m. SessionID m \<noteq> sid) (messages w)\<rparr>))"

text \<open>
  \<^verbatim>\<open>db.Where("session_id = ? AND sender = ? AND timestamp < ?", sid, "user", ts).
  Order("timestamp DESC").First(&userMessage)\<close>. \<^verbatim>\<open>First\<close> adds the primary key to the
  ordering, so among rows of the same timestamp the one with the least id is taken.
\<close>

definition prior_user_messages :: "string \<Rightarrow> time \<Rightarrow> World \<Rightarrow> Message list" where
  "prior_user_messages sid ts w =
     filter (\<lambda>m. SessionID m = sid \<and> Sender m = ''user'' \<and> Timestamp m < ts) (messages w)"

definition comes_first :: "Message \<Rightarrow> Message \<Rightarrow> bool" where
  "comes_first a b \<longleftrightarrow>
     Timestamp b < Timestamp a \<or> (Timestamp a = Timestamp b \<and> ID a \<le> ID b)"

fun first_of :: "Message list \<Rightarrow> Message option" where
  "first_of [] = None"
| "first_of (m # ms) =
     (case first_of ms of
        None \<Rightarrow> Some m
      | Some b \<Rightarrow> if comes_first m b then Some m else Some b)"

definition First_prior_user :: "bool \<Rightarrow> string \<Rightarrow> time \<Rightarrow> World \<Rightarrow> db_error + Message" where
  "First_prior_user fails sid ts w =
     (if fails then Inl ErrStorage
      else case first_of (prior_user_messages sid ts w) of
             None \<Rightarrow> Inl ErrRecordNotFound
           | Some m \<Rightarrow> Inr m)"

section \<open>handlers/chat.go\<close>

text \<open>
  \<^verbatim>\<open>c.ShouldBindJSON(&req)\<close>: \<open>None\<close> is a body that is not the JSON of a request; a field
  tagged \<^verbatim>\<open>binding:"required"\<close> must not be empty.
\<close>

definition bind_SendMessageRequest :: "SendMessageRequest option \<Rightarrow> SendMessageRequest option" where
  "bind_SendMessageRequest r =
     (case r of
        None \<Rightarrow> None
      | Some req \<Rightarrow> if send_Message req = [] then None else Some req)"

definition bind_RegenerateMessageRequest ::
  "RegenerateMessageRequest option \<Rightarrow> RegenerateMessageRequest option" where
  "bind_RegenerateMessageRequest r =
     (case r of
        None \<Rightarrow> None
      | Some req \<Rightarrow>
          if regen_MessageID req = [] \<or> regen_SessionID req = [] then None else Some req)"

text \<open>
  A \<^verbatim>\<open>models.Message{...}\<close> literal with the six fields the handlers always set; the other
  fields have Go's zero values.
\<close>

definition new_Message :: "string \<Rightarrow> string \<Rightarrow> string \<Rightarrow> time \<Rightarrow> string \<Rightarrow> Message" where
  "new_Message i content sender ts sid =
     \<lparr>ID = i, Content = content, Sender = sender, Timestamp = ts, MessageType = ''text'',
      IsTyping = False, IsFavorite = False, IsRegenerated = False,
      OriginalMessageID = [], SessionID = sid\<rparr>"

text \<open>
  SendMessage, lines 52 to 81 (``Create or get session''): database statement 0 loads the
  session with \<^verbatim>\<open>db.Preload("Mode").First\<close> (any error gives 404, and that statement always
  has one, so the branch that goes on with the loaded session is never taken), statement 1
  inserts the new one; \<^verbatim>\<open>uuid.New()\<close> number 0, \<^verbatim>\<open>time.Now()\<close> numbers 0 and 1. The second component of
  a failure is the world it leaves.
\<close>

definition SendMessage_session ::
  "Env \<Rightarrow> SendMessageRequest \<Rightarrow> World \<Rightarrow> Response \<times> World + Session \<times> World" where
  "SendMessage_session env req w =
     (if send_SessionID req \<noteq> [] then
        (case First_session_Preload_Mode (db_fails env 0) (send_SessionID req) w of
           Inl e \<Rightarrow>
             Inl (JSON 404 (ErrorResponse ''Session not found''
                              ''The specified session does not exist'' 404), w)
         | Inr session \<Rightarrow> Inr (session, w))
      else
        (let (created, w1) = time_Now (tick env 0) w;
             (updated, w2) = time_Now (tick env 1) w1;
             session = \<lparr>S_ID = uuid_New env 0, Title = ''New Chat'', CreatedAt = created,
                        UpdatedAt = updated, S_IsFavorite = False\<rparr>
         in case Create_session (db_fails env 1) session w2 of
              Inl e \<Rightarrow>
                Inl (JSON 500 (ErrorResponse ''Database error'' ''Failed to create session'' 500),
                     w2)
            | Inr w3 \<Rightarrow> Inr (session, w3)))"

text \<open>
  Lines 83 to 100 (``Create user message''): \<^verbatim>\<open>uuid.New()\<close> number 1, \<^verbatim>\<open>time.Now()\<close> number
  2, database statement 2.
\<close>

definition SendMessage_user ::
  "Env \<Rightarrow> SendMessageRequest \<Rightarrow> Session \<Rightarrow> World \<Rightarrow> Response \<times> World + Message \<times> World" where
  "SendMessage_user env req session w =
     (let (ts, w1) = time_Now (tick env 2) w;
          userMessage = new_Message (uuid_New env 1) (send_Message req) ''user'' ts (S_ID session)
      in case Create_message (db_fails env 2) userMessage w1 of
           Inl e \<Rightarrow>
             Inl (JSON 500 (ErrorResponse ''Database error'' ''Failed to save user message'' 500),
                  w1)
         | Inr w2 \<Rightarrow> Inr (userMessage, w2))"

text \<open>
  Lines 113 to 130 (``Create bot message''): \<^verbatim>\<open>uuid.New()\<close> number 2, \<^verbatim>\<open>time.Now()\<close> number
  3, database statement 3.
\<close>

definition SendMessage_bot ::
  "Env \<Rightarrow> string \<Rightarrow> Session \<Rightarrow> World \<Rightarrow> Response \<times> World + Message \<times> World" where
  "SendMessage_bot env aiResponse session w =
     (let (ts, w1) = time_Now (tick env 3) w;
          botMessage = new_Message (uuid_New env 2) aiResponse ''bot'' ts (S_ID session)
      in case Create_message (db_fails env 3) botMessage w1 of
           Inl e \<Rightarrow>
             Inl (JSON 500 (ErrorResponse ''Database error'' ''Failed to save bot message'' 500),
                  w1)
         | Inr w2 \<Rightarrow> Inr (botMessage, w2))"

text \<open>
  Lines 132 to 134 (``Update session timestamp''): \<^verbatim>\<open>time.Now()\<close> number 4, database
  statement 4, whose error nobody reads.
\<close>

definition SendMessage_touch :: "Env \<Rightarrow> Session \<Rightarrow> World \<Rightarrow> World" where
  "SendMessage_touch env session w =
     (let (now, w1) = time_Now (tick env 4) w
      in discard_error (Save_session (db_fails env 4) (session\<lparr>UpdatedAt := now\<rparr>) w1) w1)"

text \<open>The handler \<^verbatim>\<open>SendMessage\<close>, lines 40 to 141.\<close>

definition SendMessage :: "Env \<Rightarrow> SendMessageRequest option \<Rightarrow> World \<Rightarrow> Response \<times> World" where
  "SendMessage env r w =
     (case bind_SendMessageRequest r of
        None \<Rightarrow> (JSON 400 InvalidRequest, w)
      | Some req \<Rightarrow>
          (case SendMessage_session env req w of
             Inl failure \<Rightarrow> failure
           | Inr (session, w1) \<Rightarrow>
               (case SendMessage_user env req session w1 of
                  Inl failure \<Rightarrow> failure
                | Inr (userMessage, w2) \<Rightarrow>
                    (case ai_SendMessage env (send_Message req) of
                       Inl err \<Rightarrow>
                         (JSON 500 (ErrorResponse ''AI Service error''
                                      ''Failed to get AI response'' 500), w2)
                     | Inr aiResponse \<Rightarrow>
                         (case SendMessage_bot env aiResponse session w2 of
                            Inl failure \<Rightarrow> failure
                          | Inr (botMessage, w3) \<Rightarrow>
                              (JSON 200 (SendMessageResponse botMessage (S_ID session)),
                               SendMessage_touch env session w3))))))"

text \<open>
  The handler \<^verbatim>\<open>RegenerateMessage\<close>, lines 144 to 230. Database statements: 0 loads the
  target message, 1 the session, 2 the previous user message, 3 saves the target (its
  error is not read), 4 inserts the new message. \<^verbatim>\<open>uuid.New()\<close> number 0, \<^verbatim>\<open>time.Now()\<close>
  number 0.
\<close>

definition RegenerateMessage ::
  "Env \<Rightarrow> RegenerateMessageRequest option \<Rightarrow> World \<Rightarrow> Response \<times> World" where
  "RegenerateMessage env r w =
     (case bind_RegenerateMessageRequest r of
        None \<Rightarrow> (JSON 400 InvalidRequest, w)
      | Some req \<Rightarrow>
          (case First_message (db_fails env 0) (regen_MessageID req) w of
             Inl e \<Rightarrow>
               (JSON 404 (ErrorResponse ''Message not found''
                            ''The specified message does not exist'' 404), w)
           | Inr originalMessage \<Rightarrow>
               (case First_session (db_fails env 1) (regen_SessionID req) w of
                  Inl e \<Rightarrow>
                    (JSON 404 (ErrorResponse ''Session not found''
                                 ''The specified session does not exist'' 404), w)
                | Inr session \<Rightarrow>
                    (case First_prior_user (db_fails env 2) (regen_SessionID req)
                            (Timestamp originalMessage) w of
                       Inl e \<Rightarrow>
                         (JSON 404 (ErrorResponse ''User message not found''
                                      ''Could not find the user message to regenerate'' 404), w)
                     | Inr userMessage \<Rightarrow>
                         (let marked = originalMessage\<lparr>IsRegenerated := True,
                                         OriginalMessageID := ID originalMessage\<rparr>;
                              w1 = discard_error (Save_message (db_fails env 3) marked w) w
                          in case ai_RegenerateMessage env (Content userMessage) of
                               Inl err \<Rightarrow>
                                 (JSON 500 (ErrorResponse ''AI Service error''
                                              ''Failed to regenerate message'' 500), w1)
                             | Inr aiResponse \<Rightarrow>
                                 (let (ts, w2) = time_Now (tick env 0) w1;
                                      newMessage =
                                        (new_Message (uuid_New env 0) aiResponse ''bot'' ts
                                           (regen_SessionID req))
                                          \<lparr>IsRegenerated := True,
                                           OriginalMessageID := regen_MessageID req\<rparr>
                                  in case Create_message (db_fails env 4) newMessage w2 of
                                       Inl e \<Rightarrow>
                                         (JSON 500 (ErrorResponse ''Database error''
                                                      ''Failed to save regenerated message'' 500),
                                          w2)
                                     | Inr w3 \<Rightarrow> (JSON 200 (H_message newMessage), w3)))))))"

section \<open>handlers/session.go\<close>

text \<open>
  The handler \<^verbatim>\<open>CreateSession\<close>. A body that is not JSON is refused; the title has no
  \<^verbatim>\<open>binding\<close> tag.
\<close>

definition CreateSession :: "Env \<Rightarrow> string option \<Rightarrow> World \<Rightarrow> Response \<times> World" where
  "CreateSession env r w =
     (case r of
        None \<Rightarrow> (JSON 400 InvalidRequest, w)
      | Some title \<Rightarrow>
          (let title' = (if title = [] then ''New Chat'' else title);
               (created, w1) = time_Now (tick env 0) w;
               (updated, w2) = time_Now (tick env 1) w1;
               session = \<lparr>S_ID = uuid_New env 0, Title = title', CreatedAt = created,
                          UpdatedAt = updated, S_IsFavorite = False\<rparr>
           in case Create_session (db_fails env 0) session w2 of
                Inl e \<Rightarrow>
                  (JSON 500 (ErrorResponse ''Database error'' ''Failed to create session'' 500),
                   w2)
              | Inr w3 \<Rightarrow> (JSON 201 (H_session session []), w3)))"

text \<open>
  The handler \<^verbatim>\<open>GetSession\<close>: \<^verbatim>\<open>db.Preload("Messages").First(&session, "id = ?", id)\<close>.
\<close>

definition GetSession :: "Env \<Rightarrow> string \<Rightarrow> World \<Rightarrow> Response \<times> World" where
  "GetSession env sessionID w =
     (case First_session (db_fails env 0) sessionID w of
        Inl e \<Rightarrow>
          (JSON 404 (ErrorResponse ''Session not found''
                       ''The specified session does not exist'' 404), w)
      | Inr session \<Rightarrow>
          (JSON 200 (H_session session (filter (\<lambda>m. SessionID m = S_ID session) (messages w))),
           w))"

text \<open>
  The handler \<^verbatim>\<open>UpdateSession\<close>: database statement 0 loads the session, statement 1
  saves it; \<^verbatim>\<open>time.Now()\<close> number 0.
\<close>

definition UpdateSession ::
  "Env \<Rightarrow> string \<Rightarrow> UpdateSessionRequest option \<Rightarrow> World \<Rightarrow> Response \<times> World" where
  "UpdateSession env sessionID r w =
     (case r of
        None \<Rightarrow> (JSON 400 InvalidRequest, w)
      | Some req \<Rightarrow>
          (case First_session (db_fails env 0) sessionID w of
             Inl e \<Rightarrow>
               (JSON 404 (ErrorResponse ''Session not found''
                            ''The specified session does not exist'' 404), w)
           | Inr session \<Rightarrow>
               (let s1 = (if upd_Title req \<noteq> [] then session\<lparr>Title := upd_Title req\<rparr>
                          else session);
                    s2 = (case upd_IsFavorite req of
                            None \<Rightarrow> s1
                          | Some b \<Rightarrow> s1\<lparr>S_IsFavorite := b\<rparr>);
                    (now, w1) = time_Now (tick env 0) w;
                    s3 = s2\<lparr>UpdatedAt := now\<rparr>
                in case Save_session (db_fails env 1) s3 w1 of
                     Inl e \<Rightarrow>
                       (JSON 500 (ErrorResponse ''Database error''
                                    ''Failed to update session'' 500), w1)
                   | Inr w2 \<Rightarrow> (JSON 200 (H_session s3 []), w2))))"

text \<open>
  The partial update in the words of the specification: an empty title keeps the title, an
  absent favourite keeps the flag, and \<^verbatim>\<open>updated_at\<close> becomes the current time. The handler
  is compared with it below.
\<close>

definition partial_update :: "UpdateSessionRequest \<Rightarrow> time \<Rightarrow> Session \<Rightarrow> Session" where
  "partial_update req now session =
     session\<lparr>Title := (if upd_Title req = [] then Title session else upd_Title req),
             S_IsFavorite := (case upd_IsFavorite req of
                                None \<Rightarrow> S_IsFavorite session
                              | Some b \<Rightarrow> b),
             UpdatedAt := now\<rparr>"

text \<open>
  The handler \<^verbatim>\<open>DeleteSession\<close>: database statement 0 checks that the session exists,
  statement 1 deletes its messages, statement 2 deletes the session.
\<close>

definition DeleteSession :: "Env \<Rightarrow> string \<Rightarrow> World \<Rightarrow> Response \<times> World" where
  "DeleteSession env sessionID w =
     (case First_session (db_fails env 0) sessionID w of
        Inl e \<Rightarrow>
          (JSON 404 (ErrorResponse ''Session not found''
                       ''The specified session does not exist'' 404), w)
      | Inr session \<Rightarrow>
          (case Delete_messages_of (db_fails env 1) sessionID w of
             Inl e \<Rightarrow>
               (JSON 500 (ErrorResponse ''Database error''
                            ''Failed to delete session messages'' 500), w)
           | Inr w1 \<Rightarrow>
               (case Delete_session (db_fails env 2) (S_ID session) w1 of
                  Inl e \<Rightarrow>
                    (JSON 500 (ErrorResponse ''Database error''
                                 ''Failed to delete session'' 500), w1)
                | Inr w2 \<Rightarrow> (JSON 200 (H_text ''Session deleted successfully''), w2))))"

text \<open>
  The handler \<^verbatim>\<open>ToggleFavorite\<close>: database statement 0 loads the session, statement 1
  saves it; \<^verbatim>\<open>time.Now()\<close> number 0.
\<close>

definition ToggleFavorite :: "Env \<Rightarrow> string \<Rightarrow> World \<Rightarrow> Response \<times> World" where
  "ToggleFavorite env sessionID w =
     (case First_session (db_fails env 0) sessionID w of
        Inl e \<Rightarrow>
          (JSON 404 (ErrorResponse ''Session not found''
                       ''The specified session does not exist'' 404), w)
      | Inr session \<Rightarrow>
          (let (now, w1) = time_Now (tick env 0) w;
               s1 = session\<lparr>S_IsFavorite := \<not> S_IsFavorite session, UpdatedAt := now\<rparr>
           in case Save_session (db_fails env 1) s1 w1 of
                Inl e \<Rightarrow>
                  (JSON 500 (ErrorResponse ''Database error'' ''Failed to update session'' 500),
                   w1)
              | Inr w2 \<Rightarrow> (JSON 200 (H_session_message s1 ''Favorite status updated''), w2)))"

section \<open>services/chat_service.go\<close>

text \<open>
  The method \<^verbatim>\<open>ChatService.DeleteSession\<close>: database statement 0 deletes the messages,
  statement 1 the session. \<open>None\<close> is the \<^verbatim>\<open>nil\<close> error.
\<close>

definition ChatService_DeleteSession :: "Env \<Rightarrow> string \<Rightarrow> World \<Rightarrow> db_error option \<times> World" where
  "ChatService_DeleteSession env sessionID w =
     (case Delete_messages_of (db_fails env 0) sessionID w of
        Inl e \<Rightarrow> (Some e, w)
      | Inr w1 \<Rightarrow>
          (case Delete_session (db_fails env 1) sessionID w1 of
             Inl e \<Rightarrow> (Some e, w1)
           | Inr w2 \<Rightarrow> (None, w2)))"

text \<open>The method \<^verbatim>\<open>ChatService.GetSession\<close>.\<close>

definition ChatService_GetSession ::
  "Env \<Rightarrow> string \<Rightarrow> World \<Rightarrow> db_error + Session \<times> Message list" where
  "ChatService_GetSession env sessionID w =
     (case First_session (db_fails env 0) sessionID w of
        Inl e \<Rightarrow> Inl e
      | Inr session \<Rightarrow> Inr (session, filter (\<lambda>m. SessionID m = S_ID session) (messages w)))"

section \<open>main.go: the routes, and the state they keep\<close>

text \<open>
  The routes of \<^verbatim>\<open>setupRoutes\<close> (main.go) that reach the tables, each with what the
  handler reads from the request.
\<close>

datatype Request =
    POST_chat_send "SendMessageRequest option"
  | POST_chat_regenerate "RegenerateMessageRequest option"
  | POST_sessions "string option"
  | GET_session string
  | PUT_session string "UpdateSessionRequest option"
  | DELETE_session string
  | POST_session_favorite string

fun serve :: "Env \<Rightarrow> Request \<Rightarrow> World \<Rightarrow> Response \<times> World" where
  "serve env (POST_chat_send r) w = SendMessage env r w"
| "serve env (POST_chat_regenerate r) w = RegenerateMessage env r w"
| "serve env (POST_sessions r) w = CreateSession env r w"
| "serve env (GET_session sid) w = GetSession env sid w"
| "serve env (PUT_session sid r) w = UpdateSession env sid r w"
| "serve env (DELETE_session sid) w = DeleteSession env sid w"
| "serve env (POST_session_favorite sid) w = ToggleFavorite env sid w"

text \<open>Requests served one after the other, each in its own environment.\<close>

fun run :: "(Env \<times> Request) list \<Rightarrow> World \<Rightarrow> World" where
  "run [] w = w"
| "run ((env, q) # rest) w = run rest (snd (serve env q w))"

text \<open>
  The state of the sessions that the requests keep: ids are unique, no session was
  updated before it was created, and no timestamp is ahead of the clock.
\<close>

definition consistent :: "World \<Rightarrow> bool" where
  "consistent w \<longleftrightarrow>
     distinct (map S_ID (sessions w))
     \<and> (\<forall>s \<in> set (sessions w). CreatedAt s \<le> UpdatedAt s \<and> UpdatedAt s \<le> clock w)"

text \<open>
  From \<open>w\<close> to \<open>w'\<close> time has not gone back and every session of \<open>w'\<close> is either a session
  of \<open>w\<close> as it was or has been stamped since.
\<close>

definition advances :: "World \<Rightarrow> World \<Rightarrow> bool" where
  "advances w w' \<longleftrightarrow>
     consistent w' \<and> clock w \<le> clock w'
     \<and> (\<forall>s' \<in> set (sessions w'). s' \<in> set (sessions w) \<or> clock w \<le> UpdatedAt s')"

text \<open>
  The session with id \<open>sid\<close> is stored with the current time as its \<^verbatim>\<open>UpdatedAt\<close>.
\<close>

definition refreshed :: "string \<Rightarrow> World \<Rightarrow> bool" where
  "refreshed sid w \<longleftrightarrow>
     (case First_session False sid w of
        Inl e \<Rightarrow> False
      | Inr s \<Rightarrow> UpdatedAt s = clock w)"

section \<open>Example environments and worlds\<close>

text \<open>
  \<open>env_mock\<close> is an environment in which nothing fails and the mock service answers; in
  \<open>env_ai_down\<close> the completion service is down; in \<open>env_save_down\<close> database statement 4
  of the request fails, which in SendMessage is the save of the session. \<open>session_a\<close>,
  \<open>message_b\<close> and \<open>message_c\<close> are the rows a first ``Hi'' creates on the empty store.
\<close>

definition env_mock :: Env where
  "env_mock =
     \<lparr>uuid_New = (\<lambda>k. if k = 0 then ''id-a'' else if k = 1 then ''id-b'' else ''id-c''),
      tick = (\<lambda>k. 1), db_fails = (\<lambda>k. False),
      ai_SendMessage = Mock_SendMessage, ai_RegenerateMessage = Mock_RegenerateMessage\<rparr>"

definition world_empty :: World where
  "world_empty = \<lparr>sessions = [], messages = [], clock = 100\<rparr>"

definition req_hi :: SendMessageRequest where
  "req_hi = \<lparr>send_Message = ''Hi'', send_SessionID = []\<rparr>"

definition env_ai_down :: Env where
  "env_ai_down = env_mock\<lparr>ai_SendMessage := (\<lambda>m. Inl ''timeout''),
                            ai_RegenerateMessage := (\<lambda>m. Inl ''timeout'')\<rparr>"

definition session_a :: Session where
  "session_a = \<lparr>S_ID = ''id-a'', Title = ''New Chat'', CreatedAt = 101, UpdatedAt = 102,
                 S_IsFavorite = False\<rparr>"

definition message_b :: Message where
  "message_b = new_Message ''id-b'' ''Hi'' ''user'' 103 ''id-a''"

definition env_save_down :: Env where
  "env_save_down = env_mock\<lparr>db_fails := (\<lambda>k. k = 4)\<rparr>"

definition message_c :: Message where
  "message_c = new_Message ''id-c'' ''Mock response to: Hi'' ''bot'' 104 ''id-a''"

text \<open>
  A world with two conversations: in \<open>s1\<close> the user said ``Hi'' and the bot answered, in
  \<open>s2\<close> there is one bot message and no user message. In \<open>env_mark_lost\<close> database
  statement 3 of the request fails, which in RegenerateMessage is the save of the flag,
  and nothing else does.
\<close>

definition session_1 :: Session where
  "session_1 = \<lparr>S_ID = ''s1'', Title = ''New Chat'', CreatedAt = 10, UpdatedAt = 12,
                 S_IsFavorite = False\<rparr>"

definition session_2 :: Session where
  "session_2 = \<lparr>S_ID = ''s2'', Title = ''Other'', CreatedAt = 20, UpdatedAt = 21,
                 S_IsFavorite = False\<rparr>"

definition message_1 :: Message where
  "message_1 = new_Message ''m1'' ''Hi'' ''user'' 11 ''s1''"

definition message_2 :: Message where
  "message_2 = new_Message ''m2'' ''Hello, how can I help?'' ''bot'' 12 ''s1''"

definition message_3 :: Message where
  "message_3 = new_Message ''m3'' ''Welcome'' ''bot'' 21 ''s2''"

definition world_chat :: World where
  "world_chat = \<lparr>sessions = [session_1, session_2],
                  messages = [message_1, message_2, message_3], clock = 100\<rparr>"

definition req_regen :: RegenerateMessageRequest where
  "req_regen = \<lparr>regen_MessageID = ''m2'', regen_SessionID = ''s1''\<rparr>"

definition req_regen_foreign :: RegenerateMessageRequest where
  "req_regen_foreign = \<lparr>regen_MessageID = ''m3'', regen_SessionID = ''s1''\<rparr>"

definition req_regen_first :: RegenerateMessageRequest where
  "req_regen_first = \<lparr>regen_MessageID = ''m3'', regen_SessionID = ''s2''\<rparr>"

definition env_mark_lost :: Env where
  "env_mark_lost = env_mock\<lparr>db_fails := (\<lambda>k. k = 3)\<rparr>"

definition message_2_marked :: Message where
  "message_2_marked = message_2\<lparr>IsRegenerated := True, OriginalMessageID := ''m2''\<rparr>"

definition message_3_marked :: Message where
  "message_3_marked = message_3\<lparr>IsRegenerated := True, OriginalMessageID := ''m3''\<rparr>"

definition message_r :: Message where
  "message_r = (new_Message ''id-a'' ''Mock regenerated response to: Hi'' ''bot'' 101 ''s1'')
                 \<lparr>IsRegenerated := True, OriginalMessageID := ''m2''\<rparr>"

definition message_r3 :: Message where
  "message_r3 = (new_Message ''id-a'' ''Mock regenerated response to: Hi'' ''bot'' 101 ''s1'')
                  \<lparr>IsRegenerated := True, OriginalMessageID := ''m3''\<rparr>"



section \<open>What the database statements leave behind\<close>

lemma time_Now_tables:
  "time_Now d w = (t, w') \<Longrightarrow> sessions w' = sessions w \<and> messages w' = messages w \<and> t = clock w + d \<and> clock w' = clock w + d"
  by (auto simp: time_Now_def)

lemma Create_message_Inr:
  "Create_message f m w = Inr w' \<Longrightarrow>
     messages w' = messages w @ [m] \<and> sessions w' = sessions w \<and> clock w' = clock w
     \<and> ID m \<notin> set (map ID (messages w)) \<and> SessionID m \<in> set (map S_ID (sessions w))"
  by (auto simp: Create_message_def split: if_splits)

lemma Create_session_Inr:
  "Create_session f s w = Inr w' \<Longrightarrow>
     sessions w' = sessions w @ [s] \<and> messages w' = messages w \<and> clock w' = clock w
     \<and> S_ID s \<notin> set (map S_ID (sessions w))"
  by (auto simp: Create_session_def split: if_splits)

lemma SendMessage_session_Inr:
  assumes "SendMessage_session env req w = Inr (session, w1)"
  shows "messages w1 = messages w"
    and "clock w \<le> clock w1"
    and "session \<in> set (sessions w1)"
    and "send_SessionID req \<noteq> [] \<Longrightarrow> w1 = w"
    and "send_SessionID req = [] \<Longrightarrow>
           sessions w1 = sessions w @ [session] \<and> Title session = ''New Chat''
           \<and> S_ID session = uuid_New env 0 \<and> S_ID session \<notin> set (map S_ID (sessions w))
           \<and> CreatedAt session = clock w + tick env 0
           \<and> UpdatedAt session = clock w + tick env 0 + tick env 1
           \<and> clock w1 = clock w + tick env 0 + tick env 1
           \<and> \<not> S_IsFavorite session"
  using assms
  by (auto simp: SendMessage_session_def First_session_Preload_Mode_def time_Now_def Let_def
      dest!: Create_session_Inr split: if_splits sum.splits option.splits)

lemma SendMessage_user_Inr:
  assumes "SendMessage_user env req session w = Inr (userMessage, w2)"
  shows "messages w2 = messages w @ [userMessage]"
    and "sessions w2 = sessions w"
    and "userMessage = new_Message (uuid_New env 1) (send_Message req) ''user''
           (clock w + tick env 2) (S_ID session)"
    and "clock w2 = clock w + tick env 2"
  using assms
  by (auto simp: SendMessage_user_def time_Now_def Let_def
      dest!: Create_message_Inr split: sum.splits)

lemma SendMessage_bot_Inr:
  assumes "SendMessage_bot env reply session w = Inr (botMessage, w3)"
  shows "messages w3 = messages w @ [botMessage]"
    and "sessions w3 = sessions w"
    and "botMessage = new_Message (uuid_New env 2) reply ''bot''
           (clock w + tick env 3) (S_ID session)"
    and "clock w3 = clock w + tick env 3"
  using assms
  by (auto simp: SendMessage_bot_def time_Now_def Let_def
      dest!: Create_message_Inr split: sum.splits)

lemma find_append_fresh:
  "\<forall>x \<in> set xs. \<not> P x \<Longrightarrow> P y \<Longrightarrow> find P (xs @ [y]) = Some y"
  by (induction xs) auto

lemma find_replace:
  "find (\<lambda>x. key x = k) xs = Some a \<Longrightarrow> key b = k \<Longrightarrow>
     find (\<lambda>x. key x = k) (map (\<lambda>x. if key x = k then b else x) xs) = Some b"
  by (induction xs) (auto split: if_splits)

lemma map_replace_fresh:
  "\<forall>x \<in> set xs. key x \<noteq> k \<Longrightarrow> map (\<lambda>x. if key x = k then b else x) xs = xs"
  by (induction xs) auto

text \<open>
  A SendMessage that names a session never gets further than loading it: the answer is
  404 and nothing is written.
\<close>

lemma SendMessage_named_session:
  assumes "bind_SendMessageRequest r = Some req" and "send_SessionID req \<noteq> []"
  shows "SendMessage env r w
           = (JSON 404 (ErrorResponse ''Session not found''
                          ''The specified session does not exist'' 404), w)"
  using assms
  by (simp add: SendMessage_def SendMessage_session_def First_session_Preload_Mode_def
      split: sum.splits)

lemma SendMessage_session_find:
  assumes "SendMessage_session env req w = Inr (session, w1)"
  shows "find (\<lambda>s. S_ID s = S_ID session) (sessions w1) = Some session"
proof (cases "send_SessionID req = []")
  case True
  from SendMessage_session_Inr(5)[OF assms True]
  have "sessions w1 = sessions w @ [session]"
    and "\<forall>x \<in> set (sessions w). S_ID x \<noteq> S_ID session" by (auto simp: image_iff)
  then show ?thesis by (simp add: find_append_fresh)
next
  case False
  with assms show ?thesis
    by (auto simp: SendMessage_session_def First_session_Preload_Mode_def
        split: if_splits sum.splits)
qed

lemma SendMessage_touch_tables:
  "messages (SendMessage_touch env session w) = messages w"
  "clock (SendMessage_touch env session w) = clock w + tick env 4"
  by (auto simp: SendMessage_touch_def time_Now_def Save_session_def Create_session_def
      discard_error_def)

lemma SendMessage_touch_fails:
  "db_fails env 4 \<Longrightarrow> sessions (SendMessage_touch env session w) = sessions w"
  by (simp add: SendMessage_touch_def time_Now_def Save_session_def discard_error_def)

lemma SendMessage_touch_saves:
  "\<not> db_fails env 4 \<Longrightarrow> S_ID session \<in> set (map S_ID (sessions w)) \<Longrightarrow>
     sessions (SendMessage_touch env session w) =
       map (\<lambda>r. if S_ID r = S_ID session then session\<lparr>UpdatedAt := clock w + tick env 4\<rparr> else r)
         (sessions w)"
  by (simp add: SendMessage_touch_def time_Now_def Save_session_def discard_error_def)

text \<open>What a 200 of SendMessage says about the run.\<close>

lemma SendMessage_200:
  assumes "SendMessage env r w = (JSON 200 body, w')"
  obtains req session w1 userMessage w2 reply botMessage w3 where
    "bind_SendMessageRequest r = Some req"
    "SendMessage_session env req w = Inr (session, w1)"
    "SendMessage_user env req session w1 = Inr (userMessage, w2)"
    "ai_SendMessage env (send_Message req) = Inr reply"
    "SendMessage_bot env reply session w2 = Inr (botMessage, w3)"
    "body = SendMessageResponse botMessage (S_ID session)"
    "w' = SendMessage_touch env session w3"
proof -
  from assms obtain req where b: "bind_SendMessageRequest r = Some req"
    by (auto simp: SendMessage_def split: option.splits)
  from assms b obtain session w1 where s: "SendMessage_session env req w = Inr (session, w1)"
    by (auto simp: SendMessage_def SendMessage_session_def Let_def time_Now_def
        split: sum.splits if_splits)
  from assms b s obtain userMessage w2 where
    u: "SendMessage_user env req session w1 = Inr (userMessage, w2)"
    by (auto simp: SendMessage_def SendMessage_user_def Let_def time_Now_def split: sum.splits)
  from assms b s u obtain reply where a: "ai_SendMessage env (send_Message req) = Inr reply"
    by (auto simp: SendMessage_def split: sum.splits)
  from assms b s u a obtain botMessage w3 where
    bt: "SendMessage_bot env reply session w2 = Inr (botMessage, w3)"
    by (auto simp: SendMessage_def SendMessage_bot_def Let_def time_Now_def split: sum.splits)
  from assms b s u a bt have "body = SendMessageResponse botMessage (S_ID session)"
    and "w' = SendMessage_touch env session w3"
    by (auto simp: SendMessage_def)
  with b s u a bt show ?thesis using that by blast
qed

section \<open>SendMessage\<close>

text \<open>
  Claim C2. Whenever SendMessage has inserted the user message and the completion service
  then fails, the handler answers 500 ``AI Service error'', the world it leaves is the one
  right after the insert: the user message is the one row added to the table of messages
  (so no bot message was created and nothing was rolled back), and the sessions are as the
  session block left them.
\<close>

theorem SendMessage_completion_failure:
  assumes "bind_SendMessageRequest r = Some req"
    and "SendMessage_session env req w = Inr (session, w1)"
    and "SendMessage_user env req session w1 = Inr (userMessage, w2)"
    and "ai_SendMessage env (send_Message req) = Inl err"
  shows "SendMessage env r w =
           (JSON 500 (ErrorResponse ''AI Service error'' ''Failed to get AI response'' 500), w2)
         \<and> messages w2 = messages w @ [userMessage]
         \<and> Sender userMessage = ''user''
         \<and> Content userMessage = send_Message req
         \<and> SessionID userMessage = S_ID session
         \<and> sessions w2 = sessions w1"
proof -
  have "SendMessage env r w =
          (JSON 500 (ErrorResponse ''AI Service error'' ''Failed to get AI response'' 500), w2)"
    using assms by (simp add: SendMessage_def)
  moreover have "messages w2 = messages w @ [userMessage]"
    using SendMessage_user_Inr(1)[OF assms(3)] SendMessage_session_Inr(1)[OF assms(2)] by simp
  moreover have "Sender userMessage = ''user'' \<and> Content userMessage = send_Message req
      \<and> SessionID userMessage = S_ID session"
    using SendMessage_user_Inr(3)[OF assms(3)] by (simp add: new_Message_def)
  moreover have "sessions w2 = sessions w1"
    using SendMessage_user_Inr(2)[OF assms(3)] .
  ultimately show ?thesis by simp
qed

theorem SendMessage_completion_failure_witness:
  "bind_SendMessageRequest (Some req_hi) = Some req_hi
   \<and> SendMessage_session env_ai_down req_hi world_empty
       = Inr (session_a, \<lparr>sessions = [session_a], messages = [], clock = 102\<rparr>)
   \<and> SendMessage_user env_ai_down req_hi session_a
         \<lparr>sessions = [session_a], messages = [], clock = 102\<rparr>
       = Inr (message_b, \<lparr>sessions = [session_a], messages = [message_b], clock = 103\<rparr>)
   \<and> ai_SendMessage env_ai_down (send_Message req_hi) = Inl ''timeout''
   \<and> SendMessage env_ai_down (Some req_hi) world_empty
       = (JSON 500 (ErrorResponse ''AI Service error'' ''Failed to get AI response'' 500),
          \<lparr>sessions = [session_a], messages = [message_b], clock = 103\<rparr>)"
proof -
  have h1: "bind_SendMessageRequest (Some req_hi) = Some req_hi"
    by (simp add: bind_SendMessageRequest_def req_hi_def)
  have h2: "SendMessage_session env_ai_down req_hi world_empty
       = Inr (session_a, \<lparr>sessions = [session_a], messages = [], clock = 102\<rparr>)"
    by (simp add: SendMessage_session_def env_ai_down_def env_mock_def req_hi_def
        world_empty_def time_Now_def Create_session_def session_a_def Let_def)
  have h3: "SendMessage_user env_ai_down req_hi session_a
         \<lparr>sessions = [session_a], messages = [], clock = 102\<rparr>
       = Inr (message_b, \<lparr>sessions = [session_a], messages = [message_b], clock = 103\<rparr>)"
    by (simp add: SendMessage_user_def env_ai_down_def env_mock_def req_hi_def
        time_Now_def Create_message_def session_a_def message_b_def new_Message_def Let_def)
  have h4: "ai_SendMessage env_ai_down (send_Message req_hi) = Inl ''timeout''"
    by (simp add: env_ai_down_def)
  from SendMessage_completion_failure[OF h1 h2 h3 h4] h1 h2 h3 h4 show ?thesis by simp
qed

text \<open>Definitions to unfold when a handler is run on an example.\<close>

lemmas example_defs =
  env_mock_def env_ai_down_def env_save_down_def world_empty_def req_hi_def session_a_def
  message_b_def message_c_def Mock_SendMessage_def Mock_RegenerateMessage_def

lemmas model_defs =
  SendMessage_def SendMessage_session_def SendMessage_user_def SendMessage_bot_def
  SendMessage_touch_def bind_SendMessageRequest_def new_Message_def time_Now_def
  First_session_def First_session_Preload_Mode_def First_message_def Create_session_def
  Create_message_def
  Save_session_def Save_message_def discard_error_def Let_def

text \<open>
  Claim C5. A SendMessage with an empty \<^verbatim>\<open>sessionId\<close> that answers 200 has added exactly
  one row to the sessions, titled ``New Chat'' and with an id no session had, and exactly
  two rows to the messages, in this order: the user message with the text of the request
  and the bot message with the reply of the completion service, both in the new session,
  and the user message's timestamp is not after the bot message's.
\<close>

theorem SendMessage_new_session:
  assumes "r = Some req" and "send_SessionID req = []"
    and "SendMessage env r w = (JSON 200 body, w')"
  shows "\<exists>session userMessage botMessage reply.
           body = SendMessageResponse botMessage (S_ID session)
           \<and> ai_SendMessage env (send_Message req) = Inr reply
           \<and> sessions w' = sessions w @ [session]
           \<and> S_ID session \<notin> set (map S_ID (sessions w))
           \<and> Title session = ''New Chat''
           \<and> messages w' = messages w @ [userMessage, botMessage]
           \<and> Sender userMessage = ''user'' \<and> Content userMessage = send_Message req
           \<and> SessionID userMessage = S_ID session
           \<and> Sender botMessage = ''bot'' \<and> Content botMessage = reply
           \<and> SessionID botMessage = S_ID session
           \<and> Timestamp userMessage \<le> Timestamp botMessage"
proof -
  from assms(3) obtain req' session w1 userMessage w2 reply botMessage w3 where
    b: "bind_SendMessageRequest r = Some req'"
    and s: "SendMessage_session env req' w = Inr (session, w1)"
    and u: "SendMessage_user env req' session w1 = Inr (userMessage, w2)"
    and a: "ai_SendMessage env (send_Message req') = Inr reply"
    and bt: "SendMessage_bot env reply session w2 = Inr (botMessage, w3)"
    and body: "body = SendMessageResponse botMessage (S_ID session)"
    and w': "w' = SendMessage_touch env session w3"
    by (rule SendMessage_200)
  from b assms(1) have req': "req' = req"
    by (auto simp: bind_SendMessageRequest_def split: if_splits)
  note s5 = SendMessage_session_Inr(5)[OF s[unfolded req'] assms(2)]
  have fresh: "\<forall>x \<in> set (sessions w). S_ID x \<noteq> S_ID session"
    using s5 by (auto simp: image_iff)
  have s3: "sessions w3 = sessions w @ [session]"
    using s5 SendMessage_user_Inr(2)[OF u] SendMessage_bot_Inr(2)[OF bt] by simp
  have m3: "messages w3 = messages w @ [userMessage, botMessage]"
    using SendMessage_session_Inr(1)[OF s] SendMessage_user_Inr(1)[OF u]
      SendMessage_bot_Inr(1)[OF bt] by simp
  define session' where
    "session' = (if db_fails env 4 then session
                 else session\<lparr>UpdatedAt := clock w3 + tick env 4\<rparr>)"
  have "sessions w' = sessions w @ [session']"
  proof (cases "db_fails env 4")
    case True
    then show ?thesis by (simp add: w' SendMessage_touch_fails s3 session'_def)
  next
    case False
    have "S_ID session \<in> set (map S_ID (sessions w3))" by (simp add: s3)
    from SendMessage_touch_saves[OF False this]
    show ?thesis using False fresh
      by (simp add: w' s3 session'_def map_replace_fresh)
  qed
  moreover have "S_ID session' = S_ID session" "Title session' = ''New Chat''"
    using s5 by (simp_all add: session'_def)
  moreover have "S_ID session \<notin> set (map S_ID (sessions w))" using s5 by blast
  moreover have "messages w' = messages w @ [userMessage, botMessage]"
    by (simp add: w' SendMessage_touch_tables m3)
  moreover have "Sender userMessage = ''user''" "Content userMessage = send_Message req"
    "SessionID userMessage = S_ID session"
    using SendMessage_user_Inr(3)[OF u] by (simp_all add: new_Message_def req')
  moreover have "Sender botMessage = ''bot''" "Content botMessage = reply"
    "SessionID botMessage = S_ID session"
    using SendMessage_bot_Inr(3)[OF bt] by (simp_all add: new_Message_def)
  moreover have "Timestamp userMessage \<le> Timestamp botMessage"
    using SendMessage_user_Inr(3,4)[OF u] SendMessage_bot_Inr(3)[OF bt]
    by (simp add: new_Message_def)
  moreover have "ai_SendMessage env (send_Message req) = Inr reply" using a req' by simp
  ultimately show ?thesis using body
    by (intro exI[of _ session'] exI[of _ userMessage] exI[of _ botMessage] exI[of _ reply])
       simp
qed

theorem SendMessage_new_session_witness:
  "send_SessionID req_hi = []
   \<and> SendMessage env_mock (Some req_hi) world_empty
       = (JSON 200 (SendMessageResponse message_c ''id-a''),
          \<lparr>sessions = [session_a\<lparr>UpdatedAt := 105\<rparr>], messages = [message_b, message_c],
             clock = 105\<rparr>)
   \<and> Timestamp message_b \<le> Timestamp message_c"
proof -
  have h2: "send_SessionID req_hi = []" by (simp add: req_hi_def)
  have h3: "SendMessage env_mock (Some req_hi) world_empty
       = (JSON 200 (SendMessageResponse message_c ''id-a''),
          \<lparr>sessions = [session_a\<lparr>UpdatedAt := 105\<rparr>], messages = [message_b, message_c],
             clock = 105\<rparr>)"
    by (simp add: model_defs example_defs)
  from SendMessage_new_session[OF refl h2 h3]
  have "Timestamp message_b \<le> Timestamp message_c"
    by (auto simp: world_empty_def)
  with h2 h3 show ?thesis by simp
qed

text \<open>
  Claim C10. When both messages have been inserted and the save that would refresh the
  session's \<^verbatim>\<open>UpdatedAt\<close> fails, SendMessage still answers 200 with the bot message and the
  session id, and the row of the session is the session as it was loaded or created: reading
  it back gives the old \<^verbatim>\<open>UpdatedAt\<close>.
\<close>

theorem SendMessage_save_failure:
  assumes "bind_SendMessageRequest r = Some req"
    and "SendMessage_session env req w = Inr (session, w1)"
    and "SendMessage_user env req session w1 = Inr (userMessage, w2)"
    and "ai_SendMessage env (send_Message req) = Inr reply"
    and "SendMessage_bot env reply session w2 = Inr (botMessage, w3)"
    and "db_fails env 4"
  shows "\<exists>w'. SendMessage env r w
                 = (JSON 200 (SendMessageResponse botMessage (S_ID session)), w')
              \<and> sessions w' = sessions w1
              \<and> First_session False (S_ID session) w' = Inr session
              \<and> messages w' = messages w @ [userMessage, botMessage]"
proof -
  let ?w' = "SendMessage_touch env session w3"
  have "SendMessage env r w = (JSON 200 (SendMessageResponse botMessage (S_ID session)), ?w')"
    using assms(1-5) by (simp add: SendMessage_def)
  moreover have s': "sessions ?w' = sessions w1"
    using SendMessage_touch_fails[OF assms(6)] SendMessage_user_Inr(2)[OF assms(3)]
      SendMessage_bot_Inr(2)[OF assms(5)] by simp
  moreover have "First_session False (S_ID session) ?w' = Inr session"
    using SendMessage_session_find[OF assms(2)] by (simp add: First_session_def s')
  moreover have "messages ?w' = messages w @ [userMessage, botMessage]"
    using SendMessage_session_Inr(1)[OF assms(2)] SendMessage_user_Inr(1)[OF assms(3)]
      SendMessage_bot_Inr(1)[OF assms(5)] by (simp add: SendMessage_touch_tables)
  ultimately show ?thesis by blast
qed

theorem SendMessage_save_failure_witness:
  "db_fails env_save_down 4
   \<and> SendMessage env_save_down (Some req_hi) world_empty
       = (JSON 200 (SendMessageResponse message_c ''id-a''),
          \<lparr>sessions = [session_a], messages = [message_b, message_c], clock = 105\<rparr>)
   \<and> UpdatedAt session_a = 102"
proof -
  have h1: "bind_SendMessageRequest (Some req_hi) = Some req_hi"
    by (simp add: bind_SendMessageRequest_def req_hi_def)
  have h2: "SendMessage_session env_save_down req_hi world_empty
       = Inr (session_a, \<lparr>sessions = [session_a], messages = [], clock = 102\<rparr>)"
    by (simp add: model_defs example_defs)
  have h3: "SendMessage_user env_save_down req_hi session_a
         \<lparr>sessions = [session_a], messages = [], clock = 102\<rparr>
       = Inr (message_b, \<lparr>sessions = [session_a], messages = [message_b], clock = 103\<rparr>)"
    by (simp add: model_defs example_defs)
  have h4: "ai_SendMessage env_save_down (send_Message req_hi) = Inr ''Mock response to: Hi''"
    by (simp add: example_defs)
  have h5: "SendMessage_bot env_save_down ''Mock response to: Hi'' session_a
         \<lparr>sessions = [session_a], messages = [message_b], clock = 103\<rparr>
       = Inr (message_c,
              \<lparr>sessions = [session_a], messages = [message_b, message_c], clock = 104\<rparr>)"
    by (simp add: model_defs example_defs)
  have h6: "db_fails env_save_down 4" by (simp add: example_defs)
  from SendMessage_save_failure[OF h1 h2 h3 h4 h5 h6]
  obtain w' where
    "SendMessage env_save_down (Some req_hi) world_empty
       = (JSON 200 (SendMessageResponse message_c (S_ID session_a)), w')"
    "sessions w' = [session_a]" "messages w' = [message_b, message_c]"
    by (auto simp: world_empty_def)
  moreover have "clock (snd (SendMessage env_save_down (Some req_hi) world_empty)) = 105"
    by (simp add: model_defs example_defs)
  ultimately have "SendMessage env_save_down (Some req_hi) world_empty
       = (JSON 200 (SendMessageResponse message_c ''id-a''),
          \<lparr>sessions = [session_a], messages = [message_b, message_c], clock = 105\<rparr>)"
    by (cases w') (simp add: session_a_def)
  with h6 show ?thesis by (simp add: session_a_def)
qed

section \<open>RegenerateMessage\<close>

lemma First_message_Inr:
  "First_message f mid w = Inr m \<Longrightarrow>
     find (\<lambda>x. ID x = mid) (messages w) = Some m \<and> ID m = mid \<and> m \<in> set (messages w)"
  by (auto simp: First_message_def find_Some_iff split: if_splits option.splits)

lemma First_session_Inr:
  "First_session f sid w = Inr s \<Longrightarrow>
     find (\<lambda>x. S_ID x = sid) (sessions w) = Some s \<and> S_ID s = sid \<and> s \<in> set (sessions w)"
  by (auto simp: First_session_def find_Some_iff split: if_splits option.splits)

lemma first_of_None: "first_of ms = None \<longleftrightarrow> ms = []"
  by (induction ms) (auto split: option.splits)

lemma first_of_Some: "first_of ms = Some m \<Longrightarrow> m \<in> set ms"
  by (induction ms arbitrary: m) (auto split: option.splits if_splits)

lemma first_of_latest:
  "first_of ms = Some m \<Longrightarrow> x \<in> set ms \<Longrightarrow> Timestamp x \<le> Timestamp m"
proof (induction ms arbitrary: m x)
  case Nil
  then show ?case by simp
next
  case (Cons a ms)
  show ?case
  proof (cases "first_of ms")
    case None
    with Cons.prems show ?thesis by (auto simp: first_of_None)
  next
    case (Some b)
    from Cons.IH[OF Some] have le: "\<And>y. y \<in> set ms \<Longrightarrow> Timestamp y \<le> Timestamp b" by blast
    from Cons.prems Some show ?thesis
      by (auto simp: comes_first_def split: if_splits dest: le)
  qed
qed

lemma First_prior_user_Inr:
  assumes "First_prior_user f sid ts w = Inr u"
  shows "u \<in> set (messages w)" and "SessionID u = sid" and "Sender u = ''user''"
    and "Timestamp u < ts"
proof -
  from assms have "first_of (prior_user_messages sid ts w) = Some u"
    by (auto simp: First_prior_user_def split: if_splits option.splits)
  then have "u \<in> set (prior_user_messages sid ts w)" by (rule first_of_Some)
  then show "u \<in> set (messages w)" and "SessionID u = sid" and "Sender u = ''user''"
    and "Timestamp u < ts"
    by (auto simp: prior_user_messages_def)
qed

lemma First_prior_user_latest:
  assumes "First_prior_user f sid ts w = Inr u"
    and "m \<in> set (messages w)" and "SessionID m = sid" and "Sender m = ''user''"
    and "Timestamp m < ts"
  shows "Timestamp m \<le> Timestamp u"
proof -
  from assms(1) have "first_of (prior_user_messages sid ts w) = Some u"
    by (auto simp: First_prior_user_def split: if_splits option.splits)
  moreover from assms(2-5) have "m \<in> set (prior_user_messages sid ts w)"
    by (simp add: prior_user_messages_def)
  ultimately show ?thesis by (rule first_of_latest)
qed

lemma First_prior_user_none:
  assumes "\<forall>m \<in> set (messages w).
             \<not> (SessionID m = sid \<and> Sender m = ''user'' \<and> Timestamp m < ts)"
  shows "\<exists>e. First_prior_user f sid ts w = Inl e"
proof -
  have "prior_user_messages sid ts w = []"
    using assms by (auto simp: prior_user_messages_def filter_empty_conv)
  then show ?thesis by (simp add: First_prior_user_def)
qed

lemma Save_message_present:
  assumes "find (\<lambda>x. ID x = ID m) (messages w) = Some old"
  shows "Save_message False m w =
           Inr (w\<lparr>messages := map (\<lambda>r. if ID r = ID m then m else r) (messages w)\<rparr>)"
proof -
  from assms have "old \<in> set (messages w)" "ID old = ID m"
    by (auto simp: find_Some_iff)
  then have "ID m \<in> set (map ID (messages w))" by (metis image_eqI set_map)
  then show ?thesis by (simp add: Save_message_def)
qed

lemma find_append_Some: "find P xs = Some a \<Longrightarrow> find P (xs @ ys) = Some a"
  by (induction xs) (auto split: if_splits)

lemma map_ID_replace:
  "map ID (map (\<lambda>r. if ID r = ID m then m else r) ms) = map ID ms"
  by (induction ms) auto

text \<open>The world after the save of the marked target, whose error is not read.\<close>

lemma mark_world:
  assumes "find (\<lambda>x. ID x = ID m) (messages w) = Some old"
  shows "discard_error (Save_message f m w) w =
           (if f then w
            else w\<lparr>messages := map (\<lambda>r. if ID r = ID m then m else r) (messages w)\<rparr>)"
  using Save_message_present[OF assms]
  by (cases f) (simp_all add: discard_error_def Save_message_def)

lemma mark_world_tables:
  assumes "find (\<lambda>x. ID x = ID m) (messages w) = Some old"
  shows "sessions (discard_error (Save_message f m w) w) = sessions w"
    and "clock (discard_error (Save_message f m w) w) = clock w"
    and "map ID (messages (discard_error (Save_message f m w) w)) = map ID (messages w)"
  by (simp_all add: mark_world[OF assms] map_ID_replace)

text \<open>What a 200 of RegenerateMessage says about the run.\<close>

lemma RegenerateMessage_200:
  assumes "RegenerateMessage env r w = (JSON 200 body, w')"
  obtains req target session userMessage reply newMessage w1 where
    "bind_RegenerateMessageRequest r = Some req"
    "First_message (db_fails env 0) (regen_MessageID req) w = Inr target"
    "First_session (db_fails env 1) (regen_SessionID req) w = Inr session"
    "First_prior_user (db_fails env 2) (regen_SessionID req) (Timestamp target) w
       = Inr userMessage"
    "w1 = discard_error (Save_message (db_fails env 3)
            (target\<lparr>IsRegenerated := True, OriginalMessageID := ID target\<rparr>) w) w"
    "ai_RegenerateMessage env (Content userMessage) = Inr reply"
    "newMessage = (new_Message (uuid_New env 0) reply ''bot'' (clock w1 + tick env 0)
                     (regen_SessionID req))
                    \<lparr>IsRegenerated := True, OriginalMessageID := regen_MessageID req\<rparr>"
    "Create_message (db_fails env 4) newMessage (w1\<lparr>clock := clock w1 + tick env 0\<rparr>) = Inr w'"
    "body = H_message newMessage"
proof -
  from assms obtain req where b: "bind_RegenerateMessageRequest r = Some req"
    by (auto simp: RegenerateMessage_def split: option.splits)
  from assms b obtain target where
    t: "First_message (db_fails env 0) (regen_MessageID req) w = Inr target"
    by (auto simp: RegenerateMessage_def split: sum.splits)
  from assms b t obtain session where
    s: "First_session (db_fails env 1) (regen_SessionID req) w = Inr session"
    by (auto simp: RegenerateMessage_def split: sum.splits)
  from assms b t s obtain userMessage where
    u: "First_prior_user (db_fails env 2) (regen_SessionID req) (Timestamp target) w
          = Inr userMessage"
    by (auto simp: RegenerateMessage_def split: sum.splits)
  from assms b t s u obtain reply where
    a: "ai_RegenerateMessage env (Content userMessage) = Inr reply"
    by (auto simp: RegenerateMessage_def Let_def split: sum.splits)
  from assms b t s u a show ?thesis
    by (intro that[OF b t s u refl a refl])
       (auto simp: RegenerateMessage_def Let_def time_Now_def split: sum.splits)
qed

lemmas chat_defs =
  world_chat_def session_1_def session_2_def message_1_def message_2_def message_3_def
  req_regen_def req_regen_foreign_def req_regen_first_def env_mark_lost_def
  message_2_marked_def message_3_marked_def message_r_def message_r3_def

lemmas regen_defs =
  RegenerateMessage_def bind_RegenerateMessageRequest_def First_prior_user_def
  prior_user_messages_def comes_first_def

text \<open>
  What a 200 of RegenerateMessage means when the save of the flag was not refused: the
  target reads back with \<^verbatim>\<open>is_regenerated\<close> set and its own id as \<^verbatim>\<open>original_message_id\<close>, and
  exactly one row has been added to the messages, a bot message of the supplied session,
  flagged regenerated, whose \<^verbatim>\<open>original_message_id\<close> is the id of the target. The sessions
  are untouched.
\<close>

lemma RegenerateMessage_success:
  assumes "RegenerateMessage env r w = (JSON 200 body, w')" and "\<not> db_fails env 3"
  shows "\<exists>req target newMessage.
           r = Some req
           \<and> First_message (db_fails env 0) (regen_MessageID req) w = Inr target
           \<and> body = H_message newMessage
           \<and> messages w' =
               map (\<lambda>m. if ID m = regen_MessageID req
                         then target\<lparr>IsRegenerated := True,
                                     OriginalMessageID := regen_MessageID req\<rparr>
                         else m) (messages w) @ [newMessage]
           \<and> First_message False (regen_MessageID req) w'
               = Inr (target\<lparr>IsRegenerated := True, OriginalMessageID := regen_MessageID req\<rparr>)
           \<and> ID newMessage \<notin> set (map ID (messages w))
           \<and> Sender newMessage = ''bot''
           \<and> IsRegenerated newMessage
           \<and> OriginalMessageID newMessage = regen_MessageID req
           \<and> SessionID newMessage = regen_SessionID req
           \<and> sessions w' = sessions w"
proof -
  from assms(1) obtain req target session userMessage reply newMessage w1 where
    b: "bind_RegenerateMessageRequest r = Some req"
    and t: "First_message (db_fails env 0) (regen_MessageID req) w = Inr target"
    and w1: "w1 = discard_error (Save_message (db_fails env 3)
               (target\<lparr>IsRegenerated := True, OriginalMessageID := ID target\<rparr>) w) w"
    and nm: "newMessage = (new_Message (uuid_New env 0) reply ''bot'' (clock w1 + tick env 0)
                     (regen_SessionID req))
                    \<lparr>IsRegenerated := True, OriginalMessageID := regen_MessageID req\<rparr>"
    and c: "Create_message (db_fails env 4) newMessage (w1\<lparr>clock := clock w1 + tick env 0\<rparr>)
              = Inr w'"
    and body: "body = H_message newMessage"
    by (rule RegenerateMessage_200)
  let ?marked = "target\<lparr>IsRegenerated := True, OriginalMessageID := regen_MessageID req\<rparr>"
  let ?rows = "map (\<lambda>m. if ID m = regen_MessageID req then ?marked else m) (messages w)"
  note ft = First_message_Inr[OF t]
  from ft have id: "ID target = regen_MessageID req" by simp
  from ft have f: "find (\<lambda>x. ID x = ID ?marked) (messages w) = Some target" by simp
  have w1': "w1 = w\<lparr>messages := ?rows\<rparr>"
    using mark_world[OF f, of "db_fails env 3"] assms(2) by (simp add: w1 id)
  from b have r: "r = Some req"
    by (auto simp: bind_RegenerateMessageRequest_def split: option.splits if_splits)
  note cr = Create_message_Inr[OF c]
  have m': "messages w' = ?rows @ [newMessage]" using cr by (simp add: w1')
  have "find (\<lambda>x. ID x = regen_MessageID req) ?rows = Some ?marked"
    using find_replace[of ID "regen_MessageID req" "messages w" target ?marked] ft by simp
  then have "find (\<lambda>x. ID x = regen_MessageID req) (?rows @ [newMessage]) = Some ?marked"
    by (rule find_append_Some)
  then have reread: "First_message False (regen_MessageID req) w' = Inr ?marked"
    by (simp add: First_message_def m')
  have "map ID ?rows = map ID (messages w)"
    using map_ID_replace[of ?marked "messages w"] by (simp add: id)
  then have fresh: "ID newMessage \<notin> set (map ID (messages w))"
    using cr by (simp add: w1')
  have fields: "Sender newMessage = ''bot''" "IsRegenerated newMessage"
    "OriginalMessageID newMessage = regen_MessageID req"
    "SessionID newMessage = regen_SessionID req"
    by (simp_all add: nm new_Message_def)
  have "sessions w' = sessions w" using cr by (simp add: w1')
  with r t body m' reread fresh fields show ?thesis by blast
qed

lemma RegenerateMessage_success_example:
  "RegenerateMessage env_mock (Some req_regen) world_chat
     = (JSON 200 (H_message message_r),
        \<lparr>sessions = [session_1, session_2],
           messages = [message_1, message_2_marked, message_3, message_r], clock = 101\<rparr>)
   \<and> \<not> db_fails env_mock 3
   \<and> First_message False ''m2''
         \<lparr>sessions = [session_1, session_2],
            messages = [message_1, message_2_marked, message_3, message_r], clock = 101\<rparr>
       = Inr message_2_marked
   \<and> IsRegenerated message_2_marked \<and> OriginalMessageID message_2_marked = ''m2''"
proof -
  have h1: "RegenerateMessage env_mock (Some req_regen) world_chat
     = (JSON 200 (H_message message_r),
        \<lparr>sessions = [session_1, session_2],
           messages = [message_1, message_2_marked, message_3, message_r], clock = 101\<rparr>)"
    by (simp add: regen_defs model_defs example_defs chat_defs)
  have h2: "\<not> db_fails env_mock 3" by (simp add: example_defs)
  from RegenerateMessage_success[OF h1 h2]
  have "First_message False ''m2''
         \<lparr>sessions = [session_1, session_2],
            messages = [message_1, message_2_marked, message_3, message_r], clock = 101\<rparr>
       = Inr message_2_marked"
    by (auto simp: First_message_def example_defs chat_defs new_Message_def)
  with h1 h2 show ?thesis by (simp add: chat_defs new_Message_def)
qed

text \<open>
  Claim C1. Every successful RegenerateMessage should leave the target flagged, with its
  own id as \<^verbatim>\<open>original_message_id\<close>, next to the one new bot message. The handler marks the
  target (``Mark original message as regenerated'') and saves it with
  \<^verbatim>\<open>db.Save(&originalMessage)\<close>, the one statement of the handler whose error is not read.
  Here that save fails: the target is found, the session is found, a previous user message
  is found and the completion call succeeds, the handler answers 200 with the new message,
  and the target reads back unflagged and with an empty \<^verbatim>\<open>original_message_id\<close>.
\<close>

theorem RegenerateMessage_save_error_dropped:
  "First_message False ''m2'' world_chat = Inr message_2
   \<and> First_session False ''s1'' world_chat = Inr session_1
   \<and> First_prior_user False ''s1'' (Timestamp message_2) world_chat = Inr message_1
   \<and> ai_RegenerateMessage env_mark_lost (Content message_1)
       = Inr ''Mock regenerated response to: Hi''
   \<and> RegenerateMessage env_mark_lost (Some req_regen) world_chat
       = (JSON 200 (H_message message_r),
          \<lparr>sessions = [session_1, session_2],
             messages = [message_1, message_2, message_3, message_r], clock = 101\<rparr>)
   \<and> First_message False ''m2''
         \<lparr>sessions = [session_1, session_2],
            messages = [message_1, message_2, message_3, message_r], clock = 101\<rparr>
       = Inr message_2
   \<and> IsRegenerated message_2 = False
   \<and> OriginalMessageID message_2 = []"
  by (simp add: regen_defs model_defs example_defs chat_defs)

text \<open>
  Claim C6. When the target message and the session are found and the supplied session
  holds no user message older than the target, RegenerateMessage answers 404 ``User message
  not found'' and leaves the world as it was: no message is created and none is flagged.
\<close>

theorem RegenerateMessage_no_prior_user:
  assumes "bind_RegenerateMessageRequest r = Some req"
    and "First_message (db_fails env 0) (regen_MessageID req) w = Inr target"
    and "First_session (db_fails env 1) (regen_SessionID req) w = Inr session"
    and "\<forall>m \<in> set (messages w).
           \<not> (SessionID m = regen_SessionID req \<and> Sender m = ''user''
              \<and> Timestamp m < Timestamp target)"
  shows "RegenerateMessage env r w
           = (JSON 404 (ErrorResponse ''User message not found''
                          ''Could not find the user message to regenerate'' 404), w)"
proof -
  from First_prior_user_none[OF assms(4)] obtain e where
    "First_prior_user (db_fails env 2) (regen_SessionID req) (Timestamp target) w = Inl e"
    by blast
  with assms(1-3) show ?thesis by (simp add: RegenerateMessage_def)
qed

theorem RegenerateMessage_no_prior_user_witness:
  "bind_RegenerateMessageRequest (Some req_regen_first) = Some req_regen_first
   \<and> First_message (db_fails env_mock 0) (regen_MessageID req_regen_first) world_chat
       = Inr message_3
   \<and> First_session (db_fails env_mock 1) (regen_SessionID req_regen_first) world_chat
       = Inr session_2
   \<and> prior_user_messages (regen_SessionID req_regen_first) (Timestamp message_3) world_chat = []
   \<and> RegenerateMessage env_mock (Some req_regen_first) world_chat
       = (JSON 404 (ErrorResponse ''User message not found''
                      ''Could not find the user message to regenerate'' 404), world_chat)"
proof -
  have h1: "bind_RegenerateMessageRequest (Some req_regen_first) = Some req_regen_first"
    by (simp add: regen_defs chat_defs)
  have h2: "First_message (db_fails env_mock 0) (regen_MessageID req_regen_first) world_chat
       = Inr message_3"
    by (simp add: model_defs example_defs chat_defs)
  have h3: "First_session (db_fails env_mock 1) (regen_SessionID req_regen_first) world_chat
       = Inr session_2"
    by (simp add: model_defs example_defs chat_defs)
  have h4: "\<forall>m \<in> set (messages world_chat).
           \<not> (SessionID m = regen_SessionID req_regen_first \<and> Sender m = ''user''
              \<and> Timestamp m < Timestamp message_3)"
    by (simp add: chat_defs new_Message_def)
  have h5: "prior_user_messages (regen_SessionID req_regen_first) (Timestamp message_3)
              world_chat = []"
    by (simp add: regen_defs chat_defs new_Message_def)
  from RegenerateMessage_no_prior_user[OF h1 h2 h3 h4] h1 h2 h3 h5 show ?thesis by simp
qed

text \<open>
  Claim C7. When the flag of the target has been saved and the completion service then
  fails, RegenerateMessage answers 500 ``AI Service error'' and leaves the world of the
  save: the target reads back with \<^verbatim>\<open>is_regenerated\<close> set, the table holds the same message
  ids as before (no new message), and the sessions are untouched.
\<close>

theorem RegenerateMessage_completion_failure:
  assumes "bind_RegenerateMessageRequest r = Some req"
    and "First_message (db_fails env 0) (regen_MessageID req) w = Inr target"
    and "First_session (db_fails env 1) (regen_SessionID req) w = Inr session"
    and "First_prior_user (db_fails env 2) (regen_SessionID req) (Timestamp target) w
           = Inr userMessage"
    and "Save_message (db_fails env 3)
           (target\<lparr>IsRegenerated := True, OriginalMessageID := ID target\<rparr>) w = Inr w1"
    and "ai_RegenerateMessage env (Content userMessage) = Inl err"
  shows "RegenerateMessage env r w
           = (JSON 500 (ErrorResponse ''AI Service error''
                          ''Failed to regenerate message'' 500), w1)
         \<and> (\<exists>marked. First_message False (regen_MessageID req) w1 = Inr marked
                \<and> IsRegenerated marked \<and> ID marked = ID target)
         \<and> map ID (messages w1) = map ID (messages w)
         \<and> sessions w1 = sessions w"
proof -
  let ?marked = "target\<lparr>IsRegenerated := True, OriginalMessageID := ID target\<rparr>"
  note ft = First_message_Inr[OF assms(2)]
  from ft have f: "find (\<lambda>x. ID x = ID ?marked) (messages w) = Some target" by simp
  from assms(5) have nf: "\<not> db_fails env 3" by (auto simp: Save_message_def split: if_splits)
  from assms(5) Save_message_present[OF f] nf
  have w1: "w1 = w\<lparr>messages := map (\<lambda>r. if ID r = ID ?marked then ?marked else r) (messages w)\<rparr>"
    by simp
  have "RegenerateMessage env r w
          = (JSON 500 (ErrorResponse ''AI Service error''
                         ''Failed to regenerate message'' 500), w1)"
    using assms by (simp add: RegenerateMessage_def discard_error_def)
  moreover have "First_message False (regen_MessageID req) w1 = Inr ?marked"
    using find_replace[of ID "regen_MessageID req" "messages w" target ?marked] ft
    by (simp add: First_message_def w1)
  moreover have "map ID (messages w1) = map ID (messages w)"
    using map_ID_replace[of ?marked "messages w"] by (simp add: w1)
  moreover have "sessions w1 = sessions w" by (simp add: w1)
  ultimately show ?thesis by simp
qed

theorem RegenerateMessage_completion_failure_witness:
  "Save_message (db_fails env_ai_down 3)
       (message_2\<lparr>IsRegenerated := True, OriginalMessageID := ID message_2\<rparr>) world_chat
     = Inr (world_chat\<lparr>messages := [message_1, message_2_marked, message_3]\<rparr>)
   \<and> ai_RegenerateMessage env_ai_down (Content message_1) = Inl ''timeout''
   \<and> RegenerateMessage env_ai_down (Some req_regen) world_chat
       = (JSON 500 (ErrorResponse ''AI Service error'' ''Failed to regenerate message'' 500),
          world_chat\<lparr>messages := [message_1, message_2_marked, message_3]\<rparr>)
   \<and> IsRegenerated message_2_marked"
proof -
  have h1: "bind_RegenerateMessageRequest (Some req_regen) = Some req_regen"
    by (simp add: regen_defs chat_defs)
  have h2: "First_message (db_fails env_ai_down 0) (regen_MessageID req_regen) world_chat
       = Inr message_2"
    by (simp add: model_defs example_defs chat_defs)
  have h3: "First_session (db_fails env_ai_down 1) (regen_SessionID req_regen) world_chat
       = Inr session_1"
    by (simp add: model_defs example_defs chat_defs)
  have h4: "First_prior_user (db_fails env_ai_down 2) (regen_SessionID req_regen)
              (Timestamp message_2) world_chat = Inr message_1"
    by (simp add: regen_defs model_defs example_defs chat_defs)
  have h5: "Save_message (db_fails env_ai_down 3)
       (message_2\<lparr>IsRegenerated := True, OriginalMessageID := ID message_2\<rparr>) world_chat
     = Inr (world_chat\<lparr>messages := [message_1, message_2_marked, message_3]\<rparr>)"
    by (simp add: model_defs example_defs chat_defs)
  have h6: "ai_RegenerateMessage env_ai_down (Content message_1) = Inl ''timeout''"
    by (simp add: example_defs)
  from RegenerateMessage_completion_failure[OF h1 h2 h3 h4 h5 h6] h5 h6
  show ?thesis by (simp add: chat_defs)
qed

text \<open>
  Claim C9. RegenerateMessage never compares the session of the target with the supplied
  session. When they differ, the previous user message is the latest user message of the
  supplied session that is older than the target, and with a completion reply and an
  insert that is not refused the handler answers 200: the new bot message belongs to the
  supplied session while the message its \<^verbatim>\<open>original_message_id\<close> names belongs to another.
\<close>

theorem RegenerateMessage_foreign_session:
  assumes "bind_RegenerateMessageRequest r = Some req"
    and "First_message (db_fails env 0) (regen_MessageID req) w = Inr target"
    and "First_session (db_fails env 1) (regen_SessionID req) w = Inr session"
    and "SessionID target \<noteq> regen_SessionID req"
    and "First_prior_user (db_fails env 2) (regen_SessionID req) (Timestamp target) w = Inr u"
    and "ai_RegenerateMessage env (Content u) = Inr reply"
    and "\<not> db_fails env 4"
    and "uuid_New env 0 \<notin> set (map ID (messages w))"
  shows "\<exists>newMessage w' stored.
           RegenerateMessage env r w = (JSON 200 (H_message newMessage), w')
           \<and> newMessage \<in> set (messages w')
           \<and> Content newMessage = reply
           \<and> SessionID newMessage = regen_SessionID req
           \<and> OriginalMessageID newMessage = regen_MessageID req
           \<and> u \<in> set (messages w) \<and> SessionID u = regen_SessionID req
           \<and> Sender u = ''user'' \<and> Timestamp u < Timestamp target
           \<and> (\<forall>m \<in> set (messages w).
                 SessionID m = regen_SessionID req \<and> Sender m = ''user''
                 \<and> Timestamp m < Timestamp target
                 \<longrightarrow> Timestamp m \<le> Timestamp u)
           \<and> First_message False (OriginalMessageID newMessage) w' = Inr stored
           \<and> SessionID stored = SessionID target
           \<and> SessionID stored \<noteq> SessionID newMessage"
proof -
  let ?marked = "target\<lparr>IsRegenerated := True, OriginalMessageID := ID target\<rparr>"
  let ?w1 = "discard_error (Save_message (db_fails env 3) ?marked w) w"
  let ?nm = "(new_Message (uuid_New env 0) reply ''bot'' (clock ?w1 + tick env 0)
                (regen_SessionID req))
               \<lparr>IsRegenerated := True, OriginalMessageID := regen_MessageID req\<rparr>"
  let ?w2 = "?w1\<lparr>clock := clock ?w1 + tick env 0\<rparr>"
  let ?w3 = "?w2\<lparr>messages := messages ?w2 @ [?nm]\<rparr>"
  let ?stored = "if db_fails env 3 then target else ?marked"
  note ft = First_message_Inr[OF assms(2)]
  note fs = First_session_Inr[OF assms(3)]
  from ft have f: "find (\<lambda>x. ID x = ID ?marked) (messages w) = Some target" by simp
  note tabs = mark_world_tables[OF f, of "db_fails env 3"]
  have "regen_SessionID req \<in> set (map S_ID (sessions w))"
    using fs by (metis image_eqI set_map)
  then have c: "Create_message (db_fails env 4) ?nm ?w2 = Inr ?w3"
    using assms(7,8) tabs by (simp add: Create_message_def new_Message_def)
  have run: "RegenerateMessage env r w = (JSON 200 (H_message ?nm), ?w3)"
    using assms(1,2,3,5,6) c by (simp add: RegenerateMessage_def time_Now_def Let_def)
  have "find (\<lambda>x. ID x = regen_MessageID req) (messages ?w1) = Some ?stored"
    unfolding mark_world[OF f, of "db_fails env 3"]
    using find_replace[of ID "regen_MessageID req" "messages w" target ?marked] ft
    by simp
  then have "find (\<lambda>x. ID x = regen_MessageID req) (messages ?w1 @ [?nm]) = Some ?stored"
    by (rule find_append_Some)
  then have rd: "First_message False (OriginalMessageID ?nm) ?w3 = Inr ?stored"
    by (simp add: First_message_def)
  have st: "SessionID ?stored = SessionID target" by simp
  have ne: "SessionID ?stored \<noteq> SessionID ?nm"
    using assms(4) by (simp add: new_Message_def)
  have fields: "?nm \<in> set (messages ?w3)" "Content ?nm = reply"
    "SessionID ?nm = regen_SessionID req" "OriginalMessageID ?nm = regen_MessageID req"
    by (simp_all add: new_Message_def)
  note pu = First_prior_user_Inr[OF assms(5)]
  have latest: "\<forall>m \<in> set (messages w).
                 SessionID m = regen_SessionID req \<and> Sender m = ''user''
                 \<and> Timestamp m < Timestamp target
                 \<longrightarrow> Timestamp m \<le> Timestamp u"
    using First_prior_user_latest[OF assms(5)] by blast
  show ?thesis
    apply (rule exI[of _ ?nm], rule exI[of _ ?w3], rule exI[of _ ?stored])
    using run fields pu rd st ne latest by blast
qed

theorem RegenerateMessage_foreign_session_witness:
  "SessionID message_3 \<noteq> regen_SessionID req_regen_foreign
   \<and> First_prior_user (db_fails env_mock 2) (regen_SessionID req_regen_foreign)
        (Timestamp message_3) world_chat = Inr message_1
   \<and> RegenerateMessage env_mock (Some req_regen_foreign) world_chat
       = (JSON 200 (H_message message_r3),
          \<lparr>sessions = [session_1, session_2],
             messages = [message_1, message_2, message_3_marked, message_r3], clock = 101\<rparr>)
   \<and> SessionID message_r3 = ''s1'' \<and> OriginalMessageID message_r3 = ''m3''
   \<and> SessionID message_3_marked = ''s2''"
proof -
  have h1: "bind_RegenerateMessageRequest (Some req_regen_foreign) = Some req_regen_foreign"
    by (simp add: regen_defs chat_defs)
  have h2: "First_message (db_fails env_mock 0) (regen_MessageID req_regen_foreign) world_chat
       = Inr message_3"
    by (simp add: model_defs example_defs chat_defs)
  have h3: "First_session (db_fails env_mock 1) (regen_SessionID req_regen_foreign) world_chat
       = Inr session_1"
    by (simp add: model_defs example_defs chat_defs)
  have h4: "SessionID message_3 \<noteq> regen_SessionID req_regen_foreign"
    by (simp add: chat_defs new_Message_def)
  have h5: "First_prior_user (db_fails env_mock 2) (regen_SessionID req_regen_foreign)
        (Timestamp message_3) world_chat = Inr message_1"
    by (simp add: regen_defs model_defs example_defs chat_defs)
  have h6: "ai_RegenerateMessage env_mock (Content message_1)
              = Inr ''Mock regenerated response to: Hi''"
    by (simp add: example_defs chat_defs new_Message_def)
  have h7: "\<not> db_fails env_mock 4" by (simp add: example_defs)
  have h8: "uuid_New env_mock 0 \<notin> set (map ID (messages world_chat))"
    by (simp add: example_defs chat_defs new_Message_def)
  from RegenerateMessage_foreign_session[OF h1 h2 h3 h4 h5 h6 h7 h8]
  obtain newMessage w' where
    run: "RegenerateMessage env_mock (Some req_regen_foreign) world_chat
            = (JSON 200 (H_message newMessage), w')"
    by blast
  have "RegenerateMessage env_mock (Some req_regen_foreign) world_chat
       = (JSON 200 (H_message message_r3),
          \<lparr>sessions = [session_1, session_2],
             messages = [message_1, message_2, message_3_marked, message_r3], clock = 101\<rparr>)"
    by (simp add: regen_defs model_defs example_defs chat_defs)
  with run h4 h5 show ?thesis by (simp add: chat_defs new_Message_def)
qed

section \<open>UpdateSession\<close>

lemma Save_session_present:
  assumes "find (\<lambda>x. S_ID x = S_ID s) (sessions w) = Some old"
  shows "Save_session False s w =
           Inr (w\<lparr>sessions := map (\<lambda>r. if S_ID r = S_ID s then s else r) (sessions w)\<rparr>)"
proof -
  from assms have "old \<in> set (sessions w)" "S_ID old = S_ID s"
    by (auto simp: find_Some_iff)
  then have "S_ID s \<in> set (map S_ID (sessions w))" by (metis image_eqI set_map)
  then show ?thesis by (simp add: Save_session_def)
qed

lemma UpdateSession_found:
  assumes "First_session (db_fails env 0) sessionID w = Inr session"
  shows "UpdateSession env sessionID (Some req) w =
           (if db_fails env 1
            then (JSON 500 (ErrorResponse ''Database error'' ''Failed to update session'' 500),
                  w\<lparr>clock := clock w + tick env 0\<rparr>)
            else (JSON 200 (H_session (partial_update req (clock w + tick env 0) session) []),
                  w\<lparr>clock := clock w + tick env 0,
                    sessions := map (\<lambda>r. if S_ID r = sessionID
                                          then partial_update req (clock w + tick env 0) session
                                          else r) (sessions w)\<rparr>))"
proof -
  note fs = First_session_Inr[OF assms]
  let ?s3 = "partial_update req (clock w + tick env 0) session"
  let ?w1 = "w\<lparr>clock := clock w + tick env 0\<rparr>"
  have id: "S_ID ?s3 = sessionID" using fs by (simp add: partial_update_def)
  have "find (\<lambda>x. S_ID x = S_ID ?s3) (sessions ?w1) = Some session"
    using fs by (simp add: id)
  from Save_session_present[OF this]
  have sv: "Save_session False ?s3 ?w1 =
              Inr (?w1\<lparr>sessions := map (\<lambda>r. if S_ID r = sessionID then ?s3 else r)
                                      (sessions w)\<rparr>)"
    by (simp add: id)
  have s3: "(case upd_IsFavorite req of
               None \<Rightarrow> (if upd_Title req \<noteq> [] then session\<lparr>Title := upd_Title req\<rparr>
                         else session)
             | Some b \<Rightarrow> (if upd_Title req \<noteq> [] then session\<lparr>Title := upd_Title req\<rparr>
                           else session)\<lparr>S_IsFavorite := b\<rparr>)\<lparr>UpdatedAt := clock w + tick env 0\<rparr>
            = ?s3"
    by (simp add: partial_update_def split: option.splits)
  show ?thesis
  proof (cases "db_fails env 1")
    case True
    then show ?thesis
      using assms by (simp add: UpdateSession_def time_Now_def Let_def Save_session_def)
  next
    case False
    then show ?thesis
      using assms sv by (simp add: UpdateSession_def time_Now_def Let_def s3)
  qed
qed





section \<open>DeleteSession\<close>

text \<open>
  The handler checks that the session exists before it deletes anything: an id no session
  has gives 404 and the world as it was, and after a 200 neither the session nor any of
  its messages is left, so that GetSession answers 404.
\<close>

lemma find_filter_out: "find (\<lambda>x. key x = k) (filter (\<lambda>x. key x \<noteq> k) xs) = None"
  by (induction xs) auto

lemma DeleteSession_handler:
  assumes "DeleteSession env sessionID w = (resp, w')"
  shows "(find (\<lambda>s. S_ID s = sessionID) (sessions w) = None \<longrightarrow>
            resp = JSON 404 (ErrorResponse ''Session not found''
                               ''The specified session does not exist'' 404)
            \<and> w' = w)
         \<and> (status resp = 200 \<longrightarrow>
               messages w' = filter (\<lambda>m. SessionID m \<noteq> sessionID) (messages w)
               \<and> sessions w' = filter (\<lambda>s. S_ID s \<noteq> sessionID) (sessions w)
               \<and> GetSession env' sessionID w'
                   = (JSON 404 (ErrorResponse ''Session not found''
                                  ''The specified session does not exist'' 404), w'))"
proof (intro conjI impI)
  assume "find (\<lambda>s. S_ID s = sessionID) (sessions w) = None"
  with assms show "resp = JSON 404 (ErrorResponse ''Session not found''
                               ''The specified session does not exist'' 404)"
    and "w' = w"
    by (auto simp: DeleteSession_def First_session_def split: if_splits)
next
  assume ok: "status resp = 200"
  from assms ok obtain session where
    s: "First_session (db_fails env 0) sessionID w = Inr session"
    by (auto simp: DeleteSession_def split: sum.splits)
  note fs = First_session_Inr[OF s]
  from assms ok s have f: "\<not> db_fails env 1" "\<not> db_fails env 2"
    by (auto simp: DeleteSession_def Delete_messages_of_def Delete_session_def
        split: sum.splits if_splits)
  with assms s fs have w': "w' = w\<lparr>messages := filter (\<lambda>m. SessionID m \<noteq> sessionID) (messages w),
                              sessions := filter (\<lambda>s. S_ID s \<noteq> sessionID) (sessions w)\<rparr>"
    by (auto simp: DeleteSession_def Delete_messages_of_def Delete_session_def)
  show "messages w' = filter (\<lambda>m. SessionID m \<noteq> sessionID) (messages w)"
    and "sessions w' = filter (\<lambda>s. S_ID s \<noteq> sessionID) (sessions w)"
    by (simp_all add: w')
  show "GetSession env' sessionID w'
          = (JSON 404 (ErrorResponse ''Session not found''
                         ''The specified session does not exist'' 404), w')"
    by (simp add: GetSession_def First_session_def w' find_filter_out)
qed

lemma DeleteSession_handler_succeeds:
  assumes "find (\<lambda>s. S_ID s = sessionID) (sessions w) = Some session"
    and "\<not> db_fails env 0" "\<not> db_fails env 1" "\<not> db_fails env 2"
  shows "status (fst (DeleteSession env sessionID w)) = 200"
  using assms
  by (simp add: DeleteSession_def First_session_def Delete_messages_of_def Delete_session_def)

lemma ChatService_DeleteSession_no_check:
  assumes "\<not> db_fails env 0" "\<not> db_fails env 1"
  shows "ChatService_DeleteSession env sessionID w =
           (None, w\<lparr>messages := filter (\<lambda>m. SessionID m \<noteq> sessionID) (messages w),
                    sessions := filter (\<lambda>s. S_ID s \<noteq> sessionID) (sessions w)\<rparr>)"
  using assms
  by (simp add: ChatService_DeleteSession_def Delete_messages_of_def Delete_session_def)

text \<open>
  Claim C4 asks of every DeleteSession that an absent id fails with NotFound, the existence
  being checked before any delete. The handler does so; the method
  \<^verbatim>\<open>ChatService.DeleteSession\<close> does not: for an id that no session has it runs both deletes
  and returns \<^verbatim>\<open>nil\<close>.
\<close>

theorem ChatService_DeleteSession_absent:
  "First_session False ''nope'' world_chat = Inl ErrRecordNotFound
   \<and> ChatService_DeleteSession env_mock ''nope'' world_chat = (None, world_chat)
   \<and> DeleteSession env_mock ''nope'' world_chat
       = (JSON 404 (ErrorResponse ''Session not found''
                      ''The specified session does not exist'' 404), world_chat)"
  by (simp add: ChatService_DeleteSession_def DeleteSession_def Delete_messages_of_def
      Delete_session_def model_defs example_defs chat_defs)

section \<open>The timestamps of a session\<close>

lemma advances_refl: "consistent w \<Longrightarrow> advances w w"
  by (simp add: advances_def)

lemma advances_trans: "advances w w1 \<Longrightarrow> advances w1 w2 \<Longrightarrow> advances w w2"
  unfolding advances_def by (meson order_trans)

lemma advances_consistent: "advances w w' \<Longrightarrow> consistent w'"
  by (simp add: advances_def)

lemma advances_clock: "consistent w \<Longrightarrow> advances w (w\<lparr>clock := clock w + d\<rparr>)"
  by (auto simp: advances_def consistent_def)

lemma advances_messages: "consistent w \<Longrightarrow> advances w (w\<lparr>messages := ms\<rparr>)"
  by (auto simp: advances_def consistent_def)

lemma advances_insert:
  assumes "consistent w" and "S_ID s \<notin> set (map S_ID (sessions w))"
    and "CreatedAt s \<le> UpdatedAt s" and "UpdatedAt s = clock w"
  shows "advances w (w\<lparr>sessions := sessions w @ [s]\<rparr>)"
  using assms by (auto simp: advances_def consistent_def)

lemma distinct_replace:
  "distinct (map key xs) \<Longrightarrow> key b = k \<Longrightarrow>
     distinct (map key (map (\<lambda>r. if key r = k then b else r) xs))"
proof -
  assume d: "distinct (map key xs)" and k: "key b = k"
  have e: "map key (map (\<lambda>r. if key r = k then b else r) xs) = map key xs"
    using k by (induction xs) auto
  show ?thesis by (simp only: e d)
qed

lemma advances_replace:
  assumes "consistent w" and "CreatedAt s \<le> UpdatedAt s" and "UpdatedAt s = clock w"
  shows "advances w (w\<lparr>sessions := map (\<lambda>r. if S_ID r = S_ID s then s else r) (sessions w)\<rparr>)"
  using assms distinct_replace[of S_ID "sessions w" s "S_ID s"]
  by (auto simp: advances_def consistent_def)

lemma advances_filter:
  assumes "consistent w"
  shows "advances w (w\<lparr>sessions := filter P (sessions w), messages := ms\<rparr>)"
  using assms by (auto simp: advances_def consistent_def distinct_map_filter)

lemma Create_session_advances:
  assumes "consistent w" and "Create_session f s w = Inr w'"
    and "CreatedAt s \<le> UpdatedAt s" and "UpdatedAt s = clock w"
  shows "advances w w'"
  using assms advances_insert[of w s]
  by (auto simp: Create_session_def split: if_splits)

lemma Save_session_advances:
  assumes "consistent w" and "Save_session f s w = Inr w'"
    and "CreatedAt s \<le> UpdatedAt s" and "UpdatedAt s = clock w"
  shows "advances w w'"
  using assms advances_insert[of w s] advances_replace[of w s]
  by (auto simp: Save_session_def Create_session_def split: if_splits)

lemma Create_message_advances:
  "consistent w \<Longrightarrow> Create_message f m w = Inr w' \<Longrightarrow> advances w w'"
  using advances_messages[of w "messages w @ [m]"]
  by (auto simp: Create_message_def split: if_splits)

lemma Save_message_advances:
  "consistent w \<Longrightarrow> Save_message f m w = Inr w' \<Longrightarrow> advances w w'"
  using advances_messages[of w "messages w @ [m]"]
    advances_messages[of w "map (\<lambda>r. if ID r = ID m then m else r) (messages w)"]
  by (auto simp: Save_message_def Create_message_def split: if_splits)

lemma discard_error_advances:
  assumes "consistent w" and "\<And>w'. r = Inr w' \<Longrightarrow> advances w w'"
  shows "advances w (discard_error r w)"
  using assms by (cases r) (simp_all add: discard_error_def advances_refl)

lemma advances_same_sessions:
  "consistent w \<Longrightarrow> sessions w' = sessions w \<Longrightarrow> clock w \<le> clock w' \<Longrightarrow> advances w w'"
  by (auto simp: advances_def consistent_def)

lemma discard_Save_message_tables:
  "sessions (discard_error (Save_message f m w) w) = sessions w"
  "clock (discard_error (Save_message f m w) w) = clock w"
  by (auto simp: discard_error_def Save_message_def Create_message_def)

lemma RegenerateMessage_sessions:
  "sessions (snd (RegenerateMessage env r w)) = sessions w
   \<and> clock w \<le> clock (snd (RegenerateMessage env r w))"
  by (auto simp: RegenerateMessage_def Let_def time_Now_def discard_Save_message_tables
      split: option.splits sum.splits dest!: Create_message_Inr)

lemma GetSession_world: "snd (GetSession env sid w) = w"
  by (simp add: GetSession_def split: sum.splits)

lemma CreateSession_advances:
  assumes "consistent w"
  shows "advances w (snd (CreateSession env r w))"
proof (cases r)
  case None
  then show ?thesis using assms by (simp add: CreateSession_def advances_refl)
next
  case (Some title)
  let ?w1 = "w\<lparr>clock := clock w + tick env 0\<rparr>"
  let ?w2 = "?w1\<lparr>clock := clock ?w1 + tick env 1\<rparr>"
  let ?s = "\<lparr>S_ID = uuid_New env 0, Title = (if title = [] then ''New Chat'' else title),
             CreatedAt = clock w + tick env 0,
             UpdatedAt = clock w + tick env 0 + tick env 1, S_IsFavorite = False\<rparr>"
  have a1: "advances w ?w1" using assms by (rule advances_clock)
  have a2: "advances ?w1 ?w2" using advances_consistent[OF a1] by (rule advances_clock)
  note a12 = advances_trans[OF a1 a2]
  show ?thesis
  proof (cases "Create_session (db_fails env 0) ?s ?w2")
    case (Inl e)
    with Some a12 show ?thesis by (simp add: CreateSession_def time_Now_def Let_def)
  next
    case (Inr w3)
    from Create_session_advances[OF advances_consistent[OF a12] Inr]
    have "advances ?w2 w3" by simp
    with a12 have "advances w w3" by (rule advances_trans)
    with Some Inr show ?thesis by (simp add: CreateSession_def time_Now_def Let_def)
  qed
qed

lemma consistent_loaded:
  assumes "consistent w" and "First_session f sid w = Inr session"
  shows "CreatedAt session \<le> UpdatedAt session" and "UpdatedAt session \<le> clock w"
  using assms First_session_Inr[OF assms(2)] by (auto simp: consistent_def)

lemma UpdateSession_advances:
  assumes "consistent w"
  shows "advances w (snd (UpdateSession env sid r w))"
proof (cases r)
  case None
  then show ?thesis using assms by (simp add: UpdateSession_def advances_refl)
next
  case (Some req)
  show ?thesis
  proof (cases "First_session (db_fails env 0) sid w")
    case (Inl e)
    with Some assms show ?thesis by (simp add: UpdateSession_def advances_refl)
  next
    case (Inr session)
    let ?now = "clock w + tick env 0"
    let ?w1 = "w\<lparr>clock := ?now\<rparr>"
    let ?s = "partial_update req ?now session"
    have a1: "advances w ?w1" using assms by (rule advances_clock)
    note cl = consistent_loaded[OF assms Inr]
    show ?thesis
    proof (cases "db_fails env 1")
      case True
      with UpdateSession_found[OF Inr, of req] Some a1 show ?thesis by simp
    next
      case False
      from First_session_Inr[OF Inr] have id: "S_ID ?s = sid"
        by (simp add: partial_update_def)
      have "advances ?w1 (?w1\<lparr>sessions := map (\<lambda>r. if S_ID r = S_ID ?s then ?s else r)
                                              (sessions ?w1)\<rparr>)"
        using cl by (intro advances_replace advances_consistent[OF a1])
                    (simp_all add: partial_update_def)
      with a1 have "advances w (?w1\<lparr>sessions := map (\<lambda>r. if S_ID r = sid then ?s else r)
                                                (sessions w)\<rparr>)"
        by (simp add: id advances_trans)
      with UpdateSession_found[OF Inr, of req] Some False show ?thesis by simp
    qed
  qed
qed

lemma DeleteSession_advances:
  assumes "consistent w"
  shows "advances w (snd (DeleteSession env sid w))"
  using assms advances_refl[OF assms] advances_messages[OF assms]
    advances_filter[OF assms]
  by (auto simp: DeleteSession_def Delete_messages_of_def Delete_session_def
      split: sum.splits if_splits)

lemma ToggleFavorite_found:
  assumes "First_session (db_fails env 0) sid w = Inr session"
  shows "ToggleFavorite env sid w =
           (let now = clock w + tick env 0;
                s1 = session\<lparr>S_IsFavorite := \<not> S_IsFavorite session, UpdatedAt := now\<rparr>
            in if db_fails env 1
               then (JSON 500 (ErrorResponse ''Database error'' ''Failed to update session'' 500),
                     w\<lparr>clock := now\<rparr>)
               else (JSON 200 (H_session_message s1 ''Favorite status updated''),
                     w\<lparr>clock := now,
                       sessions := map (\<lambda>r. if S_ID r = sid then s1 else r) (sessions w)\<rparr>))"
proof -
  note fs = First_session_Inr[OF assms]
  let ?now = "clock w + tick env 0"
  let ?s1 = "session\<lparr>S_IsFavorite := \<not> S_IsFavorite session, UpdatedAt := ?now\<rparr>"
  let ?w1 = "w\<lparr>clock := ?now\<rparr>"
  have "find (\<lambda>x. S_ID x = S_ID ?s1) (sessions ?w1) = Some session" using fs by simp
  from Save_session_present[OF this] fs
  have sv: "Save_session False ?s1 ?w1 =
              Inr (?w1\<lparr>sessions := map (\<lambda>r. if S_ID r = sid then ?s1 else r) (sessions w)\<rparr>)"
    by simp
  show ?thesis
  proof (cases "db_fails env 1")
    case True
    then show ?thesis
      using assms by (simp add: ToggleFavorite_def time_Now_def Let_def Save_session_def)
  next
    case False
    then show ?thesis
      using assms sv by (simp add: ToggleFavorite_def time_Now_def Let_def)
  qed
qed

lemma ToggleFavorite_advances:
  assumes "consistent w"
  shows "advances w (snd (ToggleFavorite env sid w))"
proof (cases "First_session (db_fails env 0) sid w")
  case (Inl e)
  with assms show ?thesis by (simp add: ToggleFavorite_def advances_refl)
next
  case (Inr session)
  let ?now = "clock w + tick env 0"
  let ?w1 = "w\<lparr>clock := ?now\<rparr>"
  let ?s1 = "session\<lparr>S_IsFavorite := \<not> S_IsFavorite session, UpdatedAt := ?now\<rparr>"
  have a1: "advances w ?w1" using assms by (rule advances_clock)
  note cl = consistent_loaded[OF assms Inr]
  from First_session_Inr[OF Inr] have id: "S_ID ?s1 = sid" by simp
  have "advances ?w1 (?w1\<lparr>sessions := map (\<lambda>r. if S_ID r = S_ID ?s1 then ?s1 else r)
                                            (sessions ?w1)\<rparr>)"
    using cl by (intro advances_replace advances_consistent[OF a1]) simp_all
  with a1 have a2: "advances w (?w1\<lparr>sessions := map (\<lambda>r. if S_ID r = sid then ?s1 else r)
                                                (sessions w)\<rparr>)"
    by (simp add: id advances_trans)
  show ?thesis
    using ToggleFavorite_found[OF Inr] a1 a2 by (simp add: Let_def)
qed

lemma SendMessage_touch_advances:
  assumes "consistent w" and "CreatedAt session \<le> clock w"
  shows "advances w (SendMessage_touch env session w)"
proof -
  let ?now = "clock w + tick env 4"
  let ?w1 = "w\<lparr>clock := ?now\<rparr>"
  have a1: "advances w ?w1" using assms(1) by (rule advances_clock)
  have "advances ?w1 (discard_error (Save_session (db_fails env 4)
                        (session\<lparr>UpdatedAt := ?now\<rparr>) ?w1) ?w1)"
  proof (rule discard_error_advances[OF advances_consistent[OF a1]])
    fix w'
    assume "Save_session (db_fails env 4) (session\<lparr>UpdatedAt := ?now\<rparr>) ?w1 = Inr w'"
    from Save_session_advances[OF advances_consistent[OF a1] this] assms(2)
    show "advances ?w1 w'" by simp
  qed
  with a1 show ?thesis
    by (simp add: SendMessage_touch_def time_Now_def advances_trans)
qed

lemma SendMessage_session_advances:
  assumes "consistent w"
  shows "case SendMessage_session env req w of
           Inl (resp, w1) \<Rightarrow> advances w w1
         | Inr (session, w1) \<Rightarrow> advances w w1 \<and> CreatedAt session \<le> clock w1"
proof (cases "send_SessionID req = []")
  case False
  with assms show ?thesis
    by (simp add: SendMessage_session_def First_session_Preload_Mode_def advances_refl
        split: sum.splits)
next
  case True
  let ?w1 = "w\<lparr>clock := clock w + tick env 0\<rparr>"
  let ?w2 = "?w1\<lparr>clock := clock ?w1 + tick env 1\<rparr>"
  let ?s = "\<lparr>S_ID = uuid_New env 0, Title = ''New Chat'', CreatedAt = clock w + tick env 0,
             UpdatedAt = clock w + tick env 0 + tick env 1, S_IsFavorite = False\<rparr>"
  have a1: "advances w ?w1" using assms by (rule advances_clock)
  have a2: "advances ?w1 ?w2" using advances_consistent[OF a1] by (rule advances_clock)
  note a12 = advances_trans[OF a1 a2]
  show ?thesis
  proof (cases "Create_session (db_fails env 1) ?s ?w2")
    case (Inl e)
    with True a12 show ?thesis by (simp add: SendMessage_session_def time_Now_def Let_def)
  next
    case (Inr w3)
    from Create_session_advances[OF advances_consistent[OF a12] Inr]
    have "advances ?w2 w3" by simp
    with a12 have "advances w w3" by (rule advances_trans)
    moreover from Create_session_Inr[OF Inr] have "clock w3 = clock ?w2" by simp
    ultimately show ?thesis
      using True Inr by (simp add: SendMessage_session_def time_Now_def Let_def)
  qed
qed

lemma SendMessage_user_tables:
  "case SendMessage_user env req session w of
     Inl (resp, w1) \<Rightarrow> sessions w1 = sessions w \<and> clock w \<le> clock w1
   | Inr (m, w1) \<Rightarrow> sessions w1 = sessions w \<and> clock w \<le> clock w1"
  by (auto simp: SendMessage_user_def time_Now_def Let_def
      split: sum.splits dest!: Create_message_Inr)

lemma SendMessage_bot_tables:
  "case SendMessage_bot env reply session w of
     Inl (resp, w1) \<Rightarrow> sessions w1 = sessions w \<and> clock w \<le> clock w1
   | Inr (m, w1) \<Rightarrow> sessions w1 = sessions w \<and> clock w \<le> clock w1"
  by (auto simp: SendMessage_bot_def time_Now_def Let_def
      split: sum.splits dest!: Create_message_Inr)

lemma SendMessage_advances:
  assumes "consistent w"
  shows "advances w (snd (SendMessage env r w))"
proof (cases "bind_SendMessageRequest r")
  case None
  with assms show ?thesis by (simp add: SendMessage_def advances_refl)
next
  case (Some req)
  note ph1 = SendMessage_session_advances[OF assms, where env = env and req = req]
  show ?thesis
  proof (cases "SendMessage_session env req w")
    case (Inl failure)
    with ph1 Some show ?thesis by (cases failure) (simp add: SendMessage_def)
  next
    case (Inr found)
    obtain session w1 where found: "found = (session, w1)" by (cases found)
    from ph1 Inr found have a1: "advances w w1" and cr: "CreatedAt session \<le> clock w1"
      by simp_all
    note c1 = advances_consistent[OF a1]
    note ph2 = SendMessage_user_tables[where env = env and req = req and session = session and w = w1]
    show ?thesis
    proof (cases "SendMessage_user env req session w1")
      case (Inl failure)
      obtain resp w2 where failure: "failure = (resp, w2)" by (cases failure)
      from ph2 Inl failure have "advances w1 w2"
        by (simp add: advances_same_sessions[OF c1])
      with a1 have "advances w w2" by (rule advances_trans)
      with Some Inr found Inl failure show ?thesis by (simp add: SendMessage_def)
    next
      case (Inr sent)
      obtain userMessage w2 where sent: "sent = (userMessage, w2)" by (cases sent)
      from ph2 Inr sent have t2: "sessions w2 = sessions w1" "clock w1 \<le> clock w2"
        by simp_all
      then have "advances w1 w2" by (simp add: advances_same_sessions[OF c1])
      with a1 have a2: "advances w w2" by (rule advances_trans)
      note c2 = advances_consistent[OF a2]
      show ?thesis
      proof (cases "ai_SendMessage env (send_Message req)")
        case (Inl err)
        with Some \<open>SendMessage_session env req w = Inr found\<close> found Inr sent a2
        show ?thesis by (simp add: SendMessage_def)
      next
        case (Inr aiResponse)
        note ai = this
        note ph3 = SendMessage_bot_tables[where env = env and reply = aiResponse and session = session and w = w2]
        show ?thesis
        proof (cases "SendMessage_bot env aiResponse session w2")
          case (Inl failure)
          obtain resp w3 where failure: "failure = (resp, w3)" by (cases failure)
          from ph3 Inl failure have "advances w2 w3"
            by (simp add: advances_same_sessions[OF c2])
          with a2 have "advances w w3" by (rule advances_trans)
          with Some \<open>SendMessage_session env req w = Inr found\<close> found
            \<open>SendMessage_user env req session w1 = Inr sent\<close> sent ai Inl failure
          show ?thesis by (simp add: SendMessage_def)
        next
          case (Inr answered)
          obtain botMessage w3 where answered: "answered = (botMessage, w3)"
            by (cases answered)
          from ph3 Inr answered have t3: "sessions w3 = sessions w2" "clock w2 \<le> clock w3"
            by simp_all
          then have "advances w2 w3" by (simp add: advances_same_sessions[OF c2])
          with a2 have a3: "advances w w3" by (rule advances_trans)
          from cr t2 t3 have "CreatedAt session \<le> clock w3" by simp
          from SendMessage_touch_advances[OF advances_consistent[OF a3] this]
          have "advances w3 (SendMessage_touch env session w3)" .
          with a3 have "advances w (SendMessage_touch env session w3)"
            by (rule advances_trans)
          with Some \<open>SendMessage_session env req w = Inr found\<close> found
            \<open>SendMessage_user env req session w1 = Inr sent\<close> sent ai Inr answered
          show ?thesis by (simp add: SendMessage_def)
        qed
      qed
    qed
  qed
qed

lemma serve_advances:
  assumes "consistent w"
  shows "advances w (snd (serve env q w))"
proof (cases q)
  case (POST_chat_send r)
  then show ?thesis using SendMessage_advances[OF assms] by simp
next
  case (POST_chat_regenerate r)
  then show ?thesis
    using RegenerateMessage_sessions[of env r w] advances_same_sessions[OF assms] by simp
next
  case (POST_sessions r)
  then show ?thesis using CreateSession_advances[OF assms] by simp
next
  case (GET_session sid)
  then show ?thesis using advances_refl[OF assms] by (simp add: GetSession_world)
next
  case (PUT_session sid r)
  then show ?thesis using UpdateSession_advances[OF assms] by simp
next
  case (DELETE_session sid)
  then show ?thesis using DeleteSession_advances[OF assms] by simp
next
  case (POST_session_favorite sid)
  then show ?thesis using ToggleFavorite_advances[OF assms] by simp
qed

lemma run_advances: "consistent w \<Longrightarrow> advances w (run steps w)"
proof (induction steps arbitrary: w)
  case Nil
  then show ?case by (simp add: advances_refl)
next
  case (Cons step steps)
  obtain env q where step: "step = (env, q)" by (cases step)
  from serve_advances[OF Cons.prems, where env = env and q = q]
  have a: "advances w (snd (serve env q w))" .
  from Cons.IH[OF advances_consistent[OF a]] a
  show ?case by (simp add: step advances_trans)
qed

lemma advances_non_decreasing:
  assumes "consistent w" and "advances w w'"
    and "s \<in> set (sessions w)" and "s' \<in> set (sessions w')" and "S_ID s' = S_ID s"
  shows "UpdatedAt s \<le> UpdatedAt s'"
proof (cases "s' \<in> set (sessions w)")
  case True
  from assms(1) have "inj_on S_ID (set (sessions w))"
    by (simp add: consistent_def distinct_map)
  with True assms(3,5) have "s' = s" by (auto dest: inj_onD)
  then show ?thesis by simp
next
  case False
  with assms(2,4) have "clock w \<le> UpdatedAt s'" by (auto simp: advances_def)
  moreover from assms(1,3) have "UpdatedAt s \<le> clock w" by (simp add: consistent_def)
  ultimately show ?thesis by simp
qed

lemma UpdateSession_refreshes:
  assumes "status (fst (UpdateSession env sid r w)) = 200"
  shows "refreshed sid (snd (UpdateSession env sid r w))"
proof -
  from assms obtain req where r: "r = Some req"
    by (cases r) (auto simp: UpdateSession_def)
  from assms r obtain session where
    s: "First_session (db_fails env 0) sid w = Inr session"
    by (cases "First_session (db_fails env 0) sid w") (auto simp: UpdateSession_def)
  note fs = First_session_Inr[OF s]
  let ?s' = "partial_update req (clock w + tick env 0) session"
  from UpdateSession_found[OF s, of req] assms r have ok: "\<not> db_fails env 1"
    by (auto split: if_splits)
  have id: "S_ID ?s' = sid" using fs by (simp add: partial_update_def)
  have "find (\<lambda>x. S_ID x = sid) (map (\<lambda>r. if S_ID r = sid then ?s' else r) (sessions w))
          = Some ?s'"
    using find_replace[of S_ID sid "sessions w" session ?s'] fs id by simp
  with UpdateSession_found[OF s, of req] ok r show ?thesis
    by (simp add: refreshed_def First_session_def partial_update_def)
qed

lemma ToggleFavorite_refreshes:
  assumes "status (fst (ToggleFavorite env sid w)) = 200"
  shows "refreshed sid (snd (ToggleFavorite env sid w))"
proof -
  from assms obtain session where
    s: "First_session (db_fails env 0) sid w = Inr session"
    by (cases "First_session (db_fails env 0) sid w") (auto simp: ToggleFavorite_def)
  note fs = First_session_Inr[OF s]
  let ?s' = "session\<lparr>S_IsFavorite := \<not> S_IsFavorite session,
                      UpdatedAt := clock w + tick env 0\<rparr>"
  from ToggleFavorite_found[OF s] assms have ok: "\<not> db_fails env 1"
    by (auto simp: Let_def split: if_splits)
  have "find (\<lambda>x. S_ID x = sid) (map (\<lambda>r. if S_ID r = sid then ?s' else r) (sessions w))
          = Some ?s'"
    using find_replace[of S_ID sid "sessions w" session ?s'] fs by simp
  with ToggleFavorite_found[OF s] ok show ?thesis
    by (simp add: refreshed_def First_session_def Let_def)
qed

lemma SendMessage_refreshes:
  assumes "fst (SendMessage env r w) = JSON 200 (SendMessageResponse m sid)"
    and "\<not> db_fails env 4"
  shows "refreshed sid (snd (SendMessage env r w))"
proof -
  obtain w' where run: "SendMessage env r w = (JSON 200 (SendMessageResponse m sid), w')"
    using assms(1) by (cases "SendMessage env r w") simp
  from run obtain req session w1 userMessage w2 reply botMessage w3 where
    s: "SendMessage_session env req w = Inr (session, w1)"
    and u: "SendMessage_user env req session w1 = Inr (userMessage, w2)"
    and bt: "SendMessage_bot env reply session w2 = Inr (botMessage, w3)"
    and body: "SendMessageResponse m sid = SendMessageResponse botMessage (S_ID session)"
    and w': "w' = SendMessage_touch env session w3"
    by (rule SendMessage_200)
  from body have sid: "sid = S_ID session" by simp
  have s3: "sessions w3 = sessions w1"
    using SendMessage_user_Inr(2)[OF u] SendMessage_bot_Inr(2)[OF bt] by simp
  note f = SendMessage_session_find[OF s]
  have "S_ID session \<in> set (map S_ID (sessions w3))"
    using SendMessage_session_Inr(3)[OF s] unfolding s3 by (metis image_eqI set_map)
  from SendMessage_touch_saves[OF assms(2) this]
  have rows: "sessions w' =
                map (\<lambda>r. if S_ID r = S_ID session
                          then session\<lparr>UpdatedAt := clock w3 + tick env 4\<rparr> else r)
                    (sessions w1)"
    by (simp add: w' s3)
  have "find (\<lambda>x. S_ID x = S_ID session) (sessions w')
          = Some (session\<lparr>UpdatedAt := clock w3 + tick env 4\<rparr>)"
    unfolding rows
    using find_replace[of S_ID "S_ID session" "sessions w1" session
            "session\<lparr>UpdatedAt := clock w3 + tick env 4\<rparr>"] f
    by simp
  then show ?thesis
    by (simp add: run refreshed_def First_session_def sid w' SendMessage_touch_tables)
qed

text \<open>
  The timestamps over any sequence of requests, from a store that is \<open>consistent\<close> (unique
  session ids, no session updated before it was created, no \<^verbatim>\<open>updated_at\<close> ahead of the
  clock) and with a clock that does not run backwards: the store stays consistent, so
  \<^verbatim>\<open>updated_at\<close> is never before \<^verbatim>\<open>created_at\<close>, and no session ends with an earlier
  \<^verbatim>\<open>updated_at\<close> than it had. UpdateSession and ToggleFavorite that answer 200, and
  SendMessage that answers 200 and whose final save is not refused, store the current time
  as the session's \<^verbatim>\<open>updated_at\<close>.
\<close>

lemma updated_at_kept:
  assumes "consistent w"
  shows "consistent (run steps w)
         \<and> (\<forall>s \<in> set (sessions (run steps w)). CreatedAt s \<le> UpdatedAt s)
         \<and> (\<forall>s \<in> set (sessions w). \<forall>s' \<in> set (sessions (run steps w)).
               S_ID s' = S_ID s \<longrightarrow> UpdatedAt s \<le> UpdatedAt s')
         \<and> (\<forall>env sid r.
               status (fst (serve env (PUT_session sid r) w)) = 200
               \<longrightarrow> refreshed sid (snd (serve env (PUT_session sid r) w)))
         \<and> (\<forall>env sid.
               status (fst (serve env (POST_session_favorite sid) w)) = 200
               \<longrightarrow> refreshed sid (snd (serve env (POST_session_favorite sid) w)))
         \<and> (\<forall>env r m sid.
               fst (serve env (POST_chat_send r) w) = JSON 200 (SendMessageResponse m sid)
               \<and> \<not> db_fails env 4
               \<longrightarrow> refreshed sid (snd (serve env (POST_chat_send r) w)))"
proof -
  note a = run_advances[OF assms, of steps]
  have c: "consistent (run steps w)" using a by (rule advances_consistent)
  then have o: "\<forall>s \<in> set (sessions (run steps w)). CreatedAt s \<le> UpdatedAt s"
    by (simp add: consistent_def)
  have n: "\<forall>s \<in> set (sessions w). \<forall>s' \<in> set (sessions (run steps w)).
             S_ID s' = S_ID s \<longrightarrow> UpdatedAt s \<le> UpdatedAt s'"
    using advances_non_decreasing[OF assms a] by blast
  show ?thesis
    using c o n UpdateSession_refreshes ToggleFavorite_refreshes SendMessage_refreshes
    by simp
qed

lemma updated_at_kept_example:
  "consistent world_chat
   \<and> sessions (run [(env_mock, POST_session_favorite ''s1'')] world_chat)
       = [session_1\<lparr>S_IsFavorite := True, UpdatedAt := 101\<rparr>, session_2]
   \<and> UpdatedAt session_1 \<le> UpdatedAt (session_1\<lparr>S_IsFavorite := True, UpdatedAt := 101\<rparr>)
   \<and> refreshed ''s1'' (snd (serve env_mock (POST_session_favorite ''s1'') world_chat))"
proof -
  have h: "consistent world_chat" by (simp add: consistent_def chat_defs)
  have r: "serve env_mock (POST_session_favorite ''s1'') world_chat
       = (JSON 200 (H_session_message (session_1\<lparr>S_IsFavorite := True, UpdatedAt := 101\<rparr>)
                      ''Favorite status updated''),
          \<lparr>sessions = [session_1\<lparr>S_IsFavorite := True, UpdatedAt := 101\<rparr>, session_2],
             messages = [message_1, message_2, message_3], clock = 101\<rparr>)"
    by (simp add: ToggleFavorite_def model_defs example_defs chat_defs)
  note t = updated_at_kept[OF h, of "[(env_mock, POST_session_favorite ''s1'')]"]
  from t r have n: "UpdatedAt session_1
                      \<le> UpdatedAt (session_1\<lparr>S_IsFavorite := True, UpdatedAt := 101\<rparr>)"
    by (simp add: chat_defs)
  from t r have "refreshed ''s1'' (snd (serve env_mock (POST_session_favorite ''s1'') world_chat))"
    by (metis fst_conv status.simps)
  with h r n show ?thesis by simp
qed

text \<open>
  Claim C3. Every mutating operation on a session or on its messages should refresh the
  session's \<^verbatim>\<open>updated_at\<close>. SendMessage does so after its inserts (``Update session
  timestamp''), and so does \<^verbatim>\<open>ChatService.AddMessage\<close>; RegenerateMessage has no such
  statement. Here it flags a message of session \<open>s1\<close> and adds a message to it at time 101,
  answers 200, and the session keeps the \<^verbatim>\<open>updated_at\<close> 12 it had.
\<close>

theorem RegenerateMessage_no_refresh:
  "RegenerateMessage env_mock (Some req_regen) world_chat
     = (JSON 200 (H_message message_r),
        \<lparr>sessions = [session_1, session_2],
           messages = [message_1, message_2_marked, message_3, message_r], clock = 101\<rparr>)
   \<and> SessionID message_2_marked = S_ID session_1
   \<and> SessionID message_r = S_ID session_1
   \<and> Timestamp message_r = 101
   \<and> First_session False ''s1''
         \<lparr>sessions = [session_1, session_2],
            messages = [message_1, message_2_marked, message_3, message_r], clock = 101\<rparr>
       = Inr session_1
   \<and> UpdatedAt session_1 = 12"
  by (simp add: regen_defs model_defs example_defs chat_defs)

end
